theory Spec2Isabelle
  imports
    Complex_Main
    "HOL-Library.Log_Nat"
    "HOL-Library.Char_ord"
    "HOL-Library.List_Lexorder"
    "HOL-Library.Multiset"
    "HOL-Library.AList"
begin

section \<open>JavaScript numbers\<close>

text \<open>
  A JavaScript number is an IEEE-754 double. A finite double is modelled by its exact
  rational value; \<open>round_double\<close> is the rounding every operation applies to its exact
  result (to nearest, ties to even, 53 bits, gradual underflow, overflow to infinity).
  \<open>Fin 0\<close> stands for both zeros: they are equal for \<^verbatim>\<open>===\<close>, print alike
  (\<^verbatim>\<open>(-0).toString()\<close> is \<^verbatim>\<open>"0"\<close>), and no division by a zero occurs.

  A JavaScript string is a sequence of UTF-16 code units. It is modelled as a
  \<^typ>\<open>string\<close>, each character standing for the code unit of the same number; these are
  the strings whose code units lie below 256.
\<close>

datatype jsnum = Fin rat | PosInf | NegInf | NaN

definition pow2 :: "int \<Rightarrow> rat" where
  "pow2 e = (if 0 \<le> e then 2 ^ nat e else 1 / 2 ^ nat (- e))"

definition pow10 :: "int \<Rightarrow> rat" where
  "pow10 e = (if 0 \<le> e then 10 ^ nat e else 1 / 10 ^ nat (- e))"

text \<open>For \<open>a > 0\<close>, \<open>ilog2 a\<close> is the \<open>t\<close> with \<open>2 ^ t \<le> a < 2 ^ (t + 1)\<close>.\<close>

definition ilog2 :: "rat \<Rightarrow> int" where
  "ilog2 a = (case quotient_of a of (p, q) \<Rightarrow>
     (let t0 = bitlen p - bitlen q in if pow2 t0 \<le> a then t0 else t0 - 1))"

definition rne :: "rat \<Rightarrow> int" where
  "rne x = (let f = \<lfloor>x\<rfloor>; d = x - of_int f
            in if d < 1 / 2 then f else if 1 / 2 < d then f + 1
               else if even f then f else f + 1)"

text \<open>
  The mantissa \<open>m\<close> has at most 53 bits (54 when rounding carries); the rounded value
  \<open>m * 2 ^ e\<close> reaches \<open>2 ^ 1024\<close> exactly when \<open>e + bitlen m\<close> exceeds 1024.
\<close>

definition round_double :: "rat \<Rightarrow> jsnum" where
  "round_double x =
     (if x = 0 then Fin 0
      else let a = \<bar>x\<bar>;
               e = max (ilog2 a - 52) (- 1074);
               m = rne (a / pow2 e)
           in if 1024 < e + bitlen m then (if 0 < x then PosInf else NegInf)
              else Fin (if 0 < x then of_int m * pow2 e else - (of_int m * pow2 e)))"

subsection \<open>Number.prototype.toString\<close>

function digits_of :: "int \<Rightarrow> string" where
  "digits_of n =
     (if n < 10 then [char_of (48 + n)]
      else digits_of (n div 10) @ [char_of (48 + n mod 10)])"
  by pat_completeness auto
termination
  by (relation "measure nat") auto

declare digits_of.simps [simp del]

text \<open>For \<open>x > 0\<close>, \<open>decade x\<close> is the \<open>n\<close> with \<open>10 ^ (n - 1) \<le> x < 10 ^ n\<close>.\<close>

definition decade :: "rat \<Rightarrow> int" where
  "decade x = (case quotient_of x of (p, q) \<Rightarrow>
     (let d = int (length (digits_of p)) - int (length (digits_of q))
      in if x < pow10 d then d else d + 1))"

text \<open>
  The language standard prints a finite \<open>x > 0\<close> from integers \<open>n\<close>, \<open>k\<close>, \<open>s\<close> with
  \<open>10 ^ (k - 1) \<le> s < 10 ^ k\<close>, \<open>s * 10 ^ (n - k)\<close> rounding to \<open>x\<close>, and \<open>k\<close> as small as
  possible (and \<open>s\<close> as close to \<open>x\<close> as possible). \<open>try_digits k x n\<close> looks for such an
  \<open>s\<close> with \<open>k\<close> digits; seventeen digits always suffice for a double.
\<close>

definition try_digits :: "nat \<Rightarrow> rat \<Rightarrow> int \<Rightarrow> int option" where
  "try_digits k x n =
     (let u = pow10 (n - int k);
          lo = \<lfloor>x / u\<rfloor>;
          hi = lo + 1;
          okl = (round_double (of_int lo * u) = Fin x);
          okh = (hi < 10 ^ k \<and> round_double (of_int hi * u) = Fin x)
      in if okl \<and> okh then
           (if x - of_int lo * u < of_int hi * u - x then Some lo
            else if of_int hi * u - x < x - of_int lo * u then Some hi
            else if even lo then Some lo else Some hi)
         else if okl then Some lo
         else if okh then Some hi
         else None)"

fun shortest :: "nat \<Rightarrow> nat \<Rightarrow> rat \<Rightarrow> int \<Rightarrow> nat \<times> int" where
  "shortest 0 k x n = (k, \<lfloor>x / pow10 (n - int k)\<rfloor>)"
| "shortest (Suc fuel) k x n =
     (case try_digits k x n of
        Some s \<Rightarrow> (k, s)
      | None \<Rightarrow> shortest fuel (Suc k) x n)"

definition num_digits :: "rat \<Rightarrow> nat \<times> int \<times> int" where
  "num_digits x =
     (let n0 = decade x
      in if round_double (pow10 n0) = Fin x then (1, 1, n0 + 1)
         else (case shortest 17 1 x n0 of (k, s) \<Rightarrow> (k, s, n0)))"

definition format_num :: "nat \<times> int \<times> int \<Rightarrow> string" where
  "format_num ksn = (case ksn of (k, s, n) \<Rightarrow>
     (let ds = digits_of s
      in if int k \<le> n \<and> n \<le> 21 then ds @ replicate (nat (n - int k)) (CHR ''0'')
         else if 0 < n \<and> n \<le> 21 then take (nat n) ds @ ''.'' @ drop (nat n) ds
         else if - 6 < n \<and> n \<le> 0 then ''0.'' @ replicate (nat (- n)) (CHR ''0'') @ ds
         else let e = n - 1;
                  es = (if e < 0 then ''-'' else ''+'') @ digits_of \<bar>e\<bar>
              in if k = 1 then ds @ ''e'' @ es
                 else take 1 ds @ ''.'' @ drop 1 ds @ ''e'' @ es))"

fun js_toString :: "jsnum \<Rightarrow> string" where
  "js_toString NaN = ''NaN''"
| "js_toString PosInf = ''Infinity''"
| "js_toString NegInf = ''-Infinity''"
| "js_toString (Fin x) =
     (if x = 0 then ''0''
      else if x < 0 then ''-'' @ format_num (num_digits (- x))
      else format_num (num_digits x))"

subsection \<open>Number(string)\<close>

text \<open>
  The conversion of a string to a number: surrounding white space and line terminators
  are dropped (below 256 these are the code units 9 to 13, 32 and 160), the empty string
  is 0, a decimal literal (optional sign, digits, fraction, exponent, or
  \<^verbatim>\<open>Infinity\<close>) or an unsigned hexadecimal, octal or binary literal is rounded to the
  nearest double, and every other string is \<^verbatim>\<open>NaN\<close>.
\<close>

definition is_digit :: "char \<Rightarrow> bool" where
  "is_digit c = (CHR ''0'' \<le> c \<and> c \<le> CHR ''9'')"

definition digits_val :: "string \<Rightarrow> int" where
  "digits_val ds = foldl (\<lambda>a c. 10 * a + (of_char c - 48)) 0 ds"

definition is_ws :: "char \<Rightarrow> bool" where
  "is_ws c =
     (c \<in> set [CHR 0x09, CHR 0x0A, CHR 0x0B, CHR 0x0C, CHR 0x0D, CHR 0x20, CHR 0xA0])"

definition trim :: "string \<Rightarrow> string" where
  "trim s = rev (dropWhile is_ws (rev (dropWhile is_ws s)))"

definition parse_exponent :: "string \<Rightarrow> int option" where
  "parse_exponent r =
     (case r of
        [] \<Rightarrow> Some 0
      | c # r' \<Rightarrow>
          if c = CHR ''e'' \<or> c = CHR ''E'' then
            (let sg = (if r' \<noteq> [] \<and> hd r' = CHR ''-'' then - 1 else 1);
                 ds = (if r' \<noteq> [] \<and> (hd r' = CHR ''-'' \<or> hd r' = CHR ''+'')
                       then tl r' else r')
             in if ds \<noteq> [] \<and> list_all is_digit ds then Some (sg * digits_val ds)
                else None)
          else None)"

definition parse_unsigned_decimal :: "string \<Rightarrow> jsnum option" where
  "parse_unsigned_decimal s =
     (if s = ''Infinity'' then Some PosInf
      else let ip = takeWhile is_digit s;
               r1 = dropWhile is_digit s;
               has_dot = (r1 \<noteq> [] \<and> hd r1 = CHR ''.'');
               fp = (if has_dot then takeWhile is_digit (tl r1) else []);
               r2 = (if has_dot then dropWhile is_digit (tl r1) else r1)
           in if ip = [] \<and> fp = [] then None
              else (case parse_exponent r2 of
                      None \<Rightarrow> None
                    | Some e \<Rightarrow>
                        Some (round_double
                          (of_int (digits_val (ip @ fp)) * pow10 (e - int (length fp))))))"

definition radix_digit :: "char \<Rightarrow> int option" where
  "radix_digit c =
     (if CHR ''0'' \<le> c \<and> c \<le> CHR ''9'' then Some (of_char c - 48)
      else if CHR ''a'' \<le> c \<and> c \<le> CHR ''f'' then Some (of_char c - 87)
      else if CHR ''A'' \<le> c \<and> c \<le> CHR ''F'' then Some (of_char c - 55)
      else None)"

definition parse_radix :: "int \<Rightarrow> string \<Rightarrow> jsnum option" where
  "parse_radix b ds =
     (if ds \<noteq> [] \<and>
         list_all (\<lambda>c. case radix_digit c of None \<Rightarrow> False | Some d \<Rightarrow> d < b) ds
      then Some (round_double
             (of_int (foldl (\<lambda>a c. b * a + (case radix_digit c of None \<Rightarrow> 0 | Some d \<Rightarrow> d)) 0 ds)))
      else None)"

definition parse_nondecimal :: "string \<Rightarrow> jsnum option" where
  "parse_nondecimal s =
     (case s of
        z # p # ds \<Rightarrow>
          if z \<noteq> CHR ''0'' then None
          else if p = CHR ''x'' \<or> p = CHR ''X'' then parse_radix 16 ds
          else if p = CHR ''o'' \<or> p = CHR ''O'' then parse_radix 8 ds
          else if p = CHR ''b'' \<or> p = CHR ''B'' then parse_radix 2 ds
          else None
      | _ \<Rightarrow> None)"

fun js_neg :: "jsnum \<Rightarrow> jsnum" where
  "js_neg (Fin x) = Fin (- x)"
| "js_neg PosInf = NegInf"
| "js_neg NegInf = PosInf"
| "js_neg NaN = NaN"

definition js_Number :: "string \<Rightarrow> jsnum" where
  "js_Number str =
     (let s = trim str
      in if s = [] then Fin 0
         else (case parse_nondecimal s of
                 Some v \<Rightarrow> v
               | None \<Rightarrow>
                   if hd s = CHR ''+'' then
                     (case parse_unsigned_decimal (tl s) of Some v \<Rightarrow> v | None \<Rightarrow> NaN)
                   else if hd s = CHR ''-'' then
                     (case parse_unsigned_decimal (tl s) of
                        Some v \<Rightarrow> js_neg v
                      | None \<Rightarrow> NaN)
                   else
                     (case parse_unsigned_decimal s of Some v \<Rightarrow> v | None \<Rightarrow> NaN)))"

subsection \<open>Arithmetic and comparison\<close>

definition sign_of :: "jsnum \<Rightarrow> int" where
  "sign_of v = (case v of Fin x \<Rightarrow> (if x < 0 then - 1 else 1) | NegInf \<Rightarrow> - 1 | _ \<Rightarrow> 1)"

definition signed_inf :: "int \<Rightarrow> jsnum" where
  "signed_inf sg = (if sg < 0 then NegInf else PosInf)"

text \<open>The operator \<^verbatim>\<open>/\<close>.\<close>

fun js_div :: "jsnum \<Rightarrow> jsnum \<Rightarrow> jsnum" where
  "js_div NaN _ = NaN"
| "js_div _ NaN = NaN"
| "js_div (Fin x) (Fin y) =
     (if y = 0 then (if x = 0 then NaN else signed_inf (sign_of (Fin x)))
      else round_double (x / y))"
| "js_div (Fin x) _ = Fin 0"
| "js_div a (Fin y) = signed_inf (sign_of a * sign_of (Fin y))"
| "js_div _ _ = NaN"

text \<open>The operator \<^verbatim>\<open>-\<close> on numbers.\<close>

fun js_sub :: "jsnum \<Rightarrow> jsnum \<Rightarrow> jsnum" where
  "js_sub NaN _ = NaN"
| "js_sub _ NaN = NaN"
| "js_sub (Fin x) (Fin y) = round_double (x - y)"
| "js_sub (Fin x) PosInf = NegInf"
| "js_sub (Fin x) NegInf = PosInf"
| "js_sub PosInf PosInf = NaN"
| "js_sub PosInf _ = PosInf"
| "js_sub NegInf NegInf = NaN"
| "js_sub NegInf _ = NegInf"

definition trunc :: "rat \<Rightarrow> int" where
  "trunc x = (if 0 \<le> x then \<lfloor>x\<rfloor> else \<lceil>x\<rceil>)"

text \<open>
  The operator \<^verbatim>\<open>%\<close>: the remainder has the sign of the dividend and is always a
  double, so nothing is rounded.
\<close>

fun js_rem :: "jsnum \<Rightarrow> jsnum \<Rightarrow> jsnum" where
  "js_rem (Fin x) (Fin y) = (if y = 0 then NaN else Fin (x - y * of_int (trunc (x / y))))"
| "js_rem (Fin x) PosInf = Fin x"
| "js_rem (Fin x) NegInf = Fin x"
| "js_rem _ _ = NaN"

text \<open>\<^verbatim>\<open>Math.floor\<close>, \<^verbatim>\<open>Math.abs\<close> and the operator \<^verbatim>\<open>>\<close>.\<close>

fun js_floor :: "jsnum \<Rightarrow> jsnum" where
  "js_floor (Fin x) = Fin (of_int \<lfloor>x\<rfloor>)"
| "js_floor v = v"

fun js_abs :: "jsnum \<Rightarrow> jsnum" where
  "js_abs (Fin x) = Fin \<bar>x\<bar>"
| "js_abs NegInf = PosInf"
| "js_abs v = v"

fun js_gt :: "jsnum \<Rightarrow> jsnum \<Rightarrow> bool" where
  "js_gt NaN _ = False"
| "js_gt _ NaN = False"
| "js_gt (Fin x) (Fin y) = (y < x)"
| "js_gt PosInf b = (b \<noteq> PosInf)"
| "js_gt NegInf _ = False"
| "js_gt (Fin x) b = (b = NegInf)"

definition MAX_SAFE_INTEGER :: jsnum where
  "MAX_SAFE_INTEGER = Fin 9007199254740991"

section \<open>Strings\<close>

text \<open>
  The order used by the default \<^verbatim>\<open>Array.prototype.sort\<close> on strings is the
  lexicographic order on code units, which is the order of \<^typ>\<open>string\<close> here.
\<close>

definition startsWith :: "string \<Rightarrow> string \<Rightarrow> bool" where
  "startsWith s p = (take (length p) s = p)"

definition slice_from :: "nat \<Rightarrow> string \<Rightarrow> string" where
  "slice_from n s = drop n s"

text \<open>\<^verbatim>\<open>String.prototype.includes\<close>: the second string occurs somewhere in the first.\<close>

fun str_includes :: "string \<Rightarrow> string \<Rightarrow> bool" where
  "str_includes [] p = (p = [])"
| "str_includes (c # s) p = (startsWith (c # s) p \<or> str_includes s p)"

definition padStart :: "nat \<Rightarrow> char \<Rightarrow> string \<Rightarrow> string" where
  "padStart n c s = replicate (n - length s) c @ s"

section \<open>Dates\<close>

datatype error = RangeError | TypeError

text \<open>Days since 1970-01-01 to year, month and day of the proleptic Gregorian calendar.\<close>

definition civil_from_days :: "int \<Rightarrow> int \<times> int \<times> int" where
  "civil_from_days z0 =
     (let z = z0 + 719468;
          era = z div 146097;
          doe = z - era * 146097;
          yoe = (doe - doe div 1460 + doe div 36524 - doe div 146096) div 365;
          y = yoe + era * 400;
          doy = doe - (365 * yoe + yoe div 4 - yoe div 100);
          mp = (5 * doy + 2) div 153;
          d = doy - (153 * mp + 2) div 5 + 1;
          m = (if mp < 10 then mp + 3 else mp - 9)
      in (if m \<le> 2 then y + 1 else y, m, d))"

definition pad_int :: "nat \<Rightarrow> int \<Rightarrow> string" where
  "pad_int n v = padStart n (CHR ''0'') (digits_of v)"

definition iso_year :: "int \<Rightarrow> string" where
  "iso_year y =
     (if 0 \<le> y \<and> y \<le> 9999 then pad_int 4 y
      else (if y < 0 then ''-'' else ''+'') @ pad_int 6 \<bar>y\<bar>)"

definition iso_format :: "int \<Rightarrow> string" where
  "iso_format t =
     (let day = t div 86400000;
          msd = t mod 86400000
      in case civil_from_days day of (y, m, d) \<Rightarrow>
           iso_year y @ ''-'' @ pad_int 2 m @ ''-'' @ pad_int 2 d @ ''T'' @
           pad_int 2 (msd div 3600000) @ '':'' @ pad_int 2 (msd div 60000 mod 60) @ '':'' @
           pad_int 2 (msd div 1000 mod 60) @ ''.'' @ pad_int 3 (msd mod 1000) @ ''Z'')"

text \<open>
  \<^verbatim>\<open>new Date(ms).toISOString()\<close>: a time value that is not finite or lies more than
  8.64e15 milliseconds from the epoch makes an invalid date, for which
  \<^verbatim>\<open>toISOString\<close> throws \<^verbatim>\<open>RangeError\<close>.
\<close>

definition toISOString :: "jsnum \<Rightarrow> error + string" where
  "toISOString ms =
     (case ms of
        Fin t \<Rightarrow>
          if \<bar>t\<bar> \<le> 8640000000000000 then Inr (iso_format (trunc t)) else Inl RangeError
      | _ \<Rightarrow> Inl RangeError)"

section \<open>The precision fix\<close>

text \<open>
  A parsed JSON value. An object is the list of its own entries in the order of
  \<^verbatim>\<open>Object.entries\<close>, each key once; assigning the entries one by one to a fresh object
  yields them in the same order. Ordinary data keys are meant: the accessor key
  \<^verbatim>\<open>__proto__\<close> is outside this model.
\<close>

datatype json =
    JNull
  | JUndefined
  | JBool bool
  | JNum jsnum
  | JStr string
  | JArr "json list"
  | JObj "(string \<times> json) list"

definition is_timestamp_key :: "string \<Rightarrow> bool" where
  "is_timestamp_key key = (key = ''consensus_timestamp'' \<or> key = ''valid_start_ns'')"

fun is_number :: "json \<Rightarrow> bool" where
  "is_number (JNum _) = True"
| "is_number _ = False"

text \<open>The branch taken for a timestamp key whose value is a number.\<close>

fun fix_timestamp :: "json \<Rightarrow> json" where
  "fix_timestamp (JNum v) =
     (if str_includes (js_toString v) ''e+'' then JStr (js_toString (js_floor v))
      else if js_gt (js_abs v) MAX_SAFE_INTEGER then JStr (js_toString v)
      else JNum v)"
| "fix_timestamp v = v"

fun fixIntegerPrecision :: "json \<Rightarrow> json" where
  "fixIntegerPrecision JNull = JNull"
| "fixIntegerPrecision JUndefined = JUndefined"
| "fixIntegerPrecision (JArr xs) = JArr (map fixIntegerPrecision xs)"
| "fixIntegerPrecision (JObj kvs) =
     JObj (map (\<lambda>kv. (fst kv,
                       if is_timestamp_key (fst kv) \<and> is_number (snd kv)
                       then fix_timestamp (snd kv)
                       else fixIntegerPrecision (snd kv))) kvs)"
| "fixIntegerPrecision v = v"

section \<open>JavaScript values\<close>

text \<open>
  The functions below receive parsed JSON, or \<^verbatim>\<open>undefined\<close> where a value is absent,
  and read it dynamically. Reading a property of \<^verbatim>\<open>null\<close> or \<^verbatim>\<open>undefined\<close> throws
  \<^verbatim>\<open>TypeError\<close>; on any other value it yields the own property of that name, or
  \<^verbatim>\<open>undefined\<close>. (The names that are read, such as \<^verbatim>\<open>transaction\<close> or
  \<^verbatim>\<open>consensus_timestamp\<close>, are no properties of the built-in prototypes, and a parsed
  JSON object has the standard prototype.)
\<close>

fun field :: "json \<Rightarrow> string \<Rightarrow> json" where
  "field (JObj kvs) k = (case map_of kvs k of Some v \<Rightarrow> v | None \<Rightarrow> JUndefined)"
| "field _ k = JUndefined"

definition is_nullish :: "json \<Rightarrow> bool" where
  "is_nullish v = (v = JUndefined \<or> v = JNull)"

definition get_prop :: "json \<Rightarrow> string \<Rightarrow> error + json" where
  "get_prop v k = (if is_nullish v then Inl TypeError else Inr (field v k))"

text \<open>Sequencing: a throw ends the evaluation.\<close>

fun then_do :: "error + 'a \<Rightarrow> ('a \<Rightarrow> error + 'b) \<Rightarrow> error + 'b" where
  "then_do (Inl e) f = Inl e"
| "then_do (Inr x) f = f x"

text \<open>The truth value of a value in a condition, and \<^verbatim>\<open>Array.isArray\<close>.\<close>

fun truthy :: "json \<Rightarrow> bool" where
  "truthy JUndefined = False"
| "truthy JNull = False"
| "truthy (JBool b) = b"
| "truthy (JNum n) = (n \<noteq> Fin 0 \<and> n \<noteq> NaN)"
| "truthy (JStr s) = (s \<noteq> [])"
| "truthy (JArr xs) = True"
| "truthy (JObj kvs) = True"

fun isArray :: "json \<Rightarrow> bool" where
  "isArray (JArr xs) = True"
| "isArray _ = False"

text \<open>
  The conversion of a value to a string, as in a template literal and in
  \<^verbatim>\<open>String(v)\<close>. An array prints its elements separated by commas, \<^verbatim>\<open>null\<close> and
  \<^verbatim>\<open>undefined\<close> elements as nothing. A JSON object prints as \<^verbatim>\<open>[object Object]\<close>,
  unless it has an own property \<^verbatim>\<open>toString\<close>: that property hides the inherited
  method and, being data, cannot be called, so the conversion throws \<^verbatim>\<open>TypeError\<close>.
\<close>

fun js_ToString :: "json \<Rightarrow> error + string"
  and js_join :: "json list \<Rightarrow> error + string" where
  "js_ToString JUndefined = Inr ''undefined''"
| "js_ToString JNull = Inr ''null''"
| "js_ToString (JBool b) = Inr (if b then ''true'' else ''false'')"
| "js_ToString (JNum n) = Inr (js_toString n)"
| "js_ToString (JStr s) = Inr s"
| "js_ToString (JArr xs) = js_join xs"
| "js_ToString (JObj kvs) =
     (if map_of kvs ''toString'' \<noteq> None then Inl TypeError else Inr ''[object Object]'')"
| "js_join [] = Inr []"
| "js_join (x # xs) =
     then_do (if x = JUndefined \<or> x = JNull then Inr [] else js_ToString x)
       (\<lambda>s. then_do (js_join xs) (\<lambda>r. Inr (if xs = [] then s else s @ '','' @ r)))"

text \<open>The method call \<^verbatim>\<open>v.toString()\<close>.\<close>

definition call_toString :: "json \<Rightarrow> error + string" where
  "call_toString v = (if is_nullish v then Inl TypeError else js_ToString v)"

text \<open>
  The conversion of a value to a number, as the operators \<^verbatim>\<open>-\<close> and \<^verbatim>\<open>>\<close> apply it:
  an array or object is converted to a string first.
\<close>

fun js_ToNumber :: "json \<Rightarrow> error + jsnum" where
  "js_ToNumber JUndefined = Inr NaN"
| "js_ToNumber JNull = Inr (Fin 0)"
| "js_ToNumber (JBool b) = Inr (Fin (if b then 1 else 0))"
| "js_ToNumber (JNum n) = Inr n"
| "js_ToNumber (JStr s) = Inr (js_Number s)"
| "js_ToNumber v = then_do (js_ToString v) (\<lambda>s. Inr (js_Number s))"

text \<open>
  \<^verbatim>\<open>Array.prototype.map\<close> and \<^verbatim>\<open>Array.prototype.find\<close> with a callback that may
  throw: the first throw ends the call.
\<close>

fun map_throwing :: "('a \<Rightarrow> error + 'b) \<Rightarrow> 'a list \<Rightarrow> error + 'b list" where
  "map_throwing f [] = Inr []"
| "map_throwing f (x # xs) =
     (case f x of
        Inl e \<Rightarrow> Inl e
      | Inr y \<Rightarrow> (case map_throwing f xs of Inl e \<Rightarrow> Inl e | Inr ys \<Rightarrow> Inr (y # ys)))"

fun find_throwing :: "('a \<Rightarrow> error + bool) \<Rightarrow> 'a list \<Rightarrow> error + 'a option" where
  "find_throwing p [] = Inr None"
| "find_throwing p (x # xs) =
     (case p x of
        Inl e \<Rightarrow> Inl e
      | Inr b \<Rightarrow> if b then Inr (Some x) else find_throwing p xs)"

text \<open>
  \<^verbatim>\<open>Array.prototype.sort\<close> without a comparison function: \<^verbatim>\<open>undefined\<close> elements go
  to the end, the others are ordered by their string conversions, equal ones in their
  original order. The conversions happen in the comparisons, so they can throw only when
  there are at least two elements to compare.
\<close>

definition string_of :: "json \<Rightarrow> string" where
  "string_of v = (case js_ToString v of Inl e \<Rightarrow> [] | Inr s \<Rightarrow> s)"

definition js_sort :: "json list \<Rightarrow> error + json list" where
  "js_sort xs =
     (let ds = filter (\<lambda>v. v \<noteq> JUndefined) xs;
          us = filter (\<lambda>v. v = JUndefined) xs
      in if 2 \<le> length ds \<and> list_ex (\<lambda>v. js_ToString v = Inl TypeError) ds
         then Inl TypeError
         else Inr (sort_key string_of ds @ us))"

section \<open>Utility functions on values\<close>

subsection \<open>nanosToISOString\<close>

text \<open>
  The regular expression \<^verbatim>\<open>/\.(\d{3})Z$/\<close> matches a final dot, three digits and
  \<^verbatim>\<open>Z\<close>; the match is replaced, a string without such an ending is returned as it is.
\<close>

definition replace_ms_suffix :: "string \<Rightarrow> string \<Rightarrow> string" where
  "replace_ms_suffix s r =
     (case rev s of
        z # d3 # d2 # d1 # dot # front \<Rightarrow>
          if z = CHR ''Z'' \<and> is_digit d3 \<and> is_digit d2 \<and> is_digit d1 \<and> dot = CHR ''.''
          then rev front @ r else s
      | _ \<Rightarrow> s)"

text \<open>
  \<^verbatim>\<open>typeof nanoseconds === "string" ? nanoseconds : nanoseconds.toString()\<close>
\<close>

fun nanos_string :: "json \<Rightarrow> error + string" where
  "nanos_string (JStr s) = Inr s"
| "nanos_string v = call_toString v"

definition nanosToISOString :: "json \<Rightarrow> error + string" where
  "nanosToISOString nanoseconds =
     then_do (nanos_string nanoseconds) (\<lambda>nanosStr.
       let milliseconds = js_floor (js_div (js_Number nanosStr) (Fin 1000000));
           remainingNanos = js_rem (js_Number nanosStr) (Fin 1000000)
       in then_do (toISOString milliseconds) (\<lambda>isoBase.
            Inr (replace_ms_suffix isoBase
                   (''.'' @ padStart 6 (CHR ''0'') (js_toString remainingNanos) @ ''Z''))))"

subsection \<open>cleanTransactionHash\<close>

text \<open>
  \<^verbatim>\<open>hash.startsWith("\\x") ? hash.slice(2) : hash\<close>: the prefix is the two characters
  backslash and \<^verbatim>\<open>x\<close>.
\<close>

definition escape_prefix :: string where
  "escape_prefix = [CHR 0x5C, CHR ''x'']"

definition cleanTransactionHash :: "string \<Rightarrow> string" where
  "cleanTransactionHash hash =
     (if startsWith hash escape_prefix then slice_from 2 hash else hash)"

text \<open>
  The function called on an arbitrary value: only a string has a method
  \<^verbatim>\<open>startsWith\<close>, so the call throws \<^verbatim>\<open>TypeError\<close> on everything else.
\<close>

fun call_cleanTransactionHash :: "json \<Rightarrow> error + string" where
  "call_cleanTransactionHash (JStr hash) = Inr (cleanTransactionHash hash)"
| "call_cleanTransactionHash _ = Inl TypeError"

section \<open>Transformation of indexer data to the reference format\<close>

text \<open>
  A transfer and a transaction in the reference format. The fields that the code copies
  from the input hold whatever value the input has there.
\<close>

record transfer =
  accountID :: string
  amount_tr :: json

record canonical_tx =
  transactionID :: string
  readableTransactionID :: string
  transactionHash :: string
  payerID :: string
  startTime :: string
  nodeID :: string
  consensusTime :: string
  transactionFee :: json
  nodeFees :: json
  networkFees :: jsnum
  transfers :: "transfer list"
  status_tx :: string
  amount_tx :: json
  memo :: json
  transactionType :: string
  knownLabel :: string
  typeLabel :: string
  serviceType :: string
  source :: string

record facets =
  transactionTypes :: "(string \<times> nat) list"
  payerID_facet :: "(string \<times> nat) list"
  serviceTypes :: "(string \<times> nat) list"

record envelope =
  size_env :: nat
  totalCount :: nat
  data_env :: "canonical_tx list"
  facets :: facets
  mapping :: "json option"

text \<open>\<^verbatim>\<open>x || y\<close> on values.\<close>

definition js_or :: "json \<Rightarrow> json \<Rightarrow> json" where
  "js_or x y = (if truthy x then x else y)"

text \<open>
  \<^verbatim>\<open>(tx.crypto_transfer || []).map(...)\<close>: only an array has a method \<^verbatim>\<open>map\<close>, so a
  truthy value that is no array makes the call throw \<^verbatim>\<open>TypeError\<close>.
\<close>

definition convert_transfer :: "json \<Rightarrow> error + transfer" where
  "convert_transfer t =
     then_do (get_prop t ''entity_id'') (\<lambda>entity.
     then_do (js_ToString entity) (\<lambda>entityStr.
     then_do (get_prop t ''amount'') (\<lambda>amount.
       Inr \<lparr>accountID = ''0.0.'' @ entityStr, amount_tr = amount\<rparr>)))"

fun transfer_list :: "json \<Rightarrow> error + json list" where
  "transfer_list (JArr ts) = Inr ts"
| "transfer_list v = (if truthy v then Inl TypeError else Inr [])"

text \<open>
  The callback of \<^verbatim>\<open>find\<close>:
  \<^verbatim>\<open>t.accountID === `0.0.${tx.node_account_id}` && t.amount > 0\<close>
\<close>

definition is_node_fee :: "json \<Rightarrow> transfer \<Rightarrow> error + bool" where
  "is_node_fee node t =
     then_do (js_ToString node) (\<lambda>nodeStr.
       if accountID t = ''0.0.'' @ nodeStr
       then then_do (js_ToNumber (amount_tr t)) (\<lambda>a. Inr (js_gt a (Fin 0)))
       else Inr False)"

text \<open>\<^verbatim>\<open>found?.amount || 0\<close>\<close>

fun amount_or_zero :: "transfer option \<Rightarrow> json" where
  "amount_or_zero None = JNum (Fin 0)"
| "amount_or_zero (Some t) = js_or (amount_tr t) (JNum (Fin 0))"

text \<open>
  The body of the \<^verbatim>\<open>map\<close> callback, statement by statement. Only the two timestamp
  conversions can throw \<^verbatim>\<open>RangeError\<close>; every other throw is a \<^verbatim>\<open>TypeError\<close>.
\<close>

definition transform_tx :: "json \<Rightarrow> error + canonical_tx" where
  "transform_tx tx =
     then_do (get_prop tx ''consensus_timestamp'') (\<lambda>consensus.
     then_do (nanosToISOString consensus) (\<lambda>consensusTime'.
     then_do (nanosToISOString (field tx ''valid_start_ns'')) (\<lambda>startTime'.
     then_do (call_cleanTransactionHash (field tx ''transaction_hash'')) (\<lambda>transactionHash'.
     then_do (call_toString (field tx ''valid_start_ns'')) (\<lambda>validStartStr.
     then_do (js_ToString (field tx ''payer_account_id'')) (\<lambda>payerStr.
     then_do (js_ToString (field tx ''valid_start_ns'')) (\<lambda>validStartTpl.
     then_do (transfer_list (field tx ''crypto_transfer'')) (\<lambda>rawTransfers.
     then_do (map_throwing convert_transfer rawTransfers) (\<lambda>transfers'.
     then_do (find_throwing (is_node_fee (field tx ''node_account_id'')) transfers') (\<lambda>found.
     then_do (js_ToNumber (field tx ''charged_tx_fee'')) (\<lambda>feeNum.
     then_do (js_ToNumber (amount_or_zero found)) (\<lambda>nodeNum.
     then_do (js_ToString (field tx ''node_account_id'')) (\<lambda>nodeStr.
       Inr \<lparr>transactionID = padStart 8 (CHR ''0'') payerStr @ validStartTpl,
            readableTransactionID =
              ''0.0.'' @ payerStr @ ''@'' @
              js_toString (js_floor (js_div (js_Number validStartStr) (Fin 1000000000))) @
              ''.'' @ js_toString (js_rem (js_Number validStartStr) (Fin 1000000000)),
            transactionHash = transactionHash',
            payerID = ''0.0.'' @ payerStr,
            startTime = startTime',
            nodeID = ''0.0.'' @ nodeStr,
            consensusTime = consensusTime',
            transactionFee = field tx ''charged_tx_fee'',
            nodeFees = amount_or_zero found,
            networkFees = js_sub feeNum nodeNum,
            transfers = transfers',
            status_tx = (if field tx ''result'' = JNum (Fin 22) then ''SUCCESS'' else ''FAILED''),
            amount_tx = field tx ''charged_tx_fee'',
            memo = js_or (field tx ''decoded_memo'') (JStr []),
            transactionType = ''CRYPTO_TRANSFER'',
            knownLabel = ''CryptoTransfer'',
            typeLabel = ''Crypto Transfer'',
            serviceType = ''CRYPTO'',
            source = ''hgraphio''\<rparr>)))))))))))))"

text \<open>
  \<^verbatim>\<open>facets.payerID[k] = (facets.payerID[k] || 0) + 1\<close> on an object kept as the list
  of its entries in insertion order.
\<close>

definition count_payer :: "(string \<times> nat) list \<Rightarrow> string \<Rightarrow> (string \<times> nat) list" where
  "count_payer f k =
     AList.update k ((case map_of f k of None \<Rightarrow> 0 | Some c \<Rightarrow> c) + 1) f"

definition zero_envelope :: envelope where
  "zero_envelope =
     \<lparr>size_env = 0, totalCount = 0, data_env = [],
      facets = \<lparr>transactionTypes = [], payerID_facet = [], serviceTypes = []\<rparr>,
      mapping = None\<rparr>"

fun elements :: "json \<Rightarrow> json list" where
  "elements (JArr xs) = xs"
| "elements _ = []"

definition transformHGraphToDragonGlass :: "json \<Rightarrow> error + envelope" where
  "transformHGraphToDragonGlass hgraphData =
     then_do (get_prop hgraphData ''transaction'') (\<lambda>transactions.
       if \<not> truthy transactions \<or> \<not> isArray transactions then Inr zero_envelope
       else
         then_do (map_throwing transform_tx (elements transactions)) (\<lambda>transformedData.
           Inr \<lparr>size_env = length transformedData,
                totalCount = length transformedData,
                data_env = transformedData,
                facets =
                  \<lparr>transactionTypes = [(''CRYPTO_TRANSFER'', length transformedData)],
                   payerID_facet =
                     foldl (\<lambda>f tx. count_payer f (payerID tx)) [] transformedData,
                   serviceTypes = [(''CRYPTO'', length transformedData)]\<rparr>,
                mapping = None\<rparr>))"

section \<open>Hash extraction\<close>

text \<open>
  \<^verbatim>\<open>data.data ? data.data.map(...).sort() : []\<close>: a truthy value that is no array has no
  method \<^verbatim>\<open>map\<close>, and the call throws \<^verbatim>\<open>TypeError\<close>.
\<close>

fun map_sort :: "(json \<Rightarrow> error + json) \<Rightarrow> json \<Rightarrow> error + json list" where
  "map_sort f (JArr xs) = then_do (map_throwing f xs) js_sort"
| "map_sort f v = (if truthy v then Inl TypeError else Inr [])"

definition createCanonicalHashArray :: "json \<Rightarrow> string \<Rightarrow> error + json list" where
  "createCanonicalHashArray d src =
     (if src = ''dragonglass'' then
        then_do (get_prop d ''data'')
          (map_sort (\<lambda>tx. get_prop tx ''transactionHash''))
      else if src = ''hgraphio'' then
        then_do (get_prop d ''transaction'')
          (map_sort (\<lambda>tx.
             then_do (get_prop tx ''transaction_hash'') (\<lambda>hash.
             then_do (call_cleanTransactionHash hash) (\<lambda>cleaned. Inr (JStr cleaned)))))
      else Inr [])"

section \<open>Comparison of two hash lists\<close>

record discrepancies =
  missing_in_dragonglass :: "string list"
  missing_in_hgraph :: "string list"
  dragonglass_count :: nat
  hgraph_count :: nat

record comparison =
  status :: string
  discrepancies :: "discrepancies option"

text \<open>
  \<^verbatim>\<open>new Set(xs)\<close> followed only by \<^verbatim>\<open>has\<close> is the set of the list's elements;
  \<^verbatim>\<open>filter\<close> keeps the order and the repetitions of the list it runs over.
\<close>

definition compareAndGetStatus :: "string list \<Rightarrow> string list \<Rightarrow> comparison" where
  "compareAndGetStatus dragonGlassHashes hgraphHashes =
     (let dgSet = set dragonGlassHashes;
          hgSet = set hgraphHashes;
          missingInDragonGlass = filter (\<lambda>hash. hash \<notin> dgSet) hgraphHashes;
          missingInHGraph = filter (\<lambda>hash. hash \<notin> hgSet) dragonGlassHashes
      in if length missingInDragonGlass = 0 \<and> length missingInHGraph = 0
         then \<lparr>status = ''match'', discrepancies = None\<rparr>
         else \<lparr>status = ''discrepancy_detected'',
               discrepancies = Some
                 \<lparr>missing_in_dragonglass = missingInDragonGlass,
                  missing_in_hgraph = missingInHGraph,
                  dragonglass_count = length dragonGlassHashes,
                  hgraph_count = length hgraphHashes\<rparr>\<rparr>)"

section \<open>Auxiliary notions for the statements\<close>

text \<open>
  A value converts to a date when its string form yields a millisecond value that is
  finite and at most 8.64e15 in magnitude.
\<close>

definition valid_time :: "json \<Rightarrow> bool" where
  "valid_time v =
     (case nanos_string v of
        Inl e \<Rightarrow> False
      | Inr s \<Rightarrow>
          (case js_floor (js_div (js_Number s) (Fin 1000000)) of
             Fin t \<Rightarrow> \<bar>t\<bar> \<le> 8640000000000000
           | _ \<Rightarrow> False))"

text \<open>The values that are neither arrays nor objects, and the strings.\<close>

fun is_prim :: "json \<Rightarrow> bool" where
  "is_prim (JArr xs) = False"
| "is_prim (JObj kvs) = False"
| "is_prim _ = True"

fun isString :: "json \<Rightarrow> bool" where
  "isString (JStr s) = True"
| "isString _ = False"

text \<open>
  A raw transaction as the data model describes it, with timestamps that convert to
  dates: the hash is a string; the account numbers, the fee, and the entity and amount of
  each transfer are numbers or other plain values; the transfer list may be absent.
\<close>

definition raw_transfer_ok :: "json \<Rightarrow> bool" where
  "raw_transfer_ok t =
     (\<not> is_nullish t \<and> is_prim (field t ''entity_id'') \<and> is_prim (field t ''amount''))"

definition raw_tx_ok :: "json \<Rightarrow> bool" where
  "raw_tx_ok tx =
     (\<not> is_nullish tx \<and>
      valid_time (field tx ''consensus_timestamp'') \<and>
      valid_time (field tx ''valid_start_ns'') \<and>
      isString (field tx ''transaction_hash'') \<and>
      is_prim (field tx ''payer_account_id'') \<and>
      is_prim (field tx ''node_account_id'') \<and>
      is_prim (field tx ''charged_tx_fee'') \<and>
      (if isArray (field tx ''crypto_transfer'')
       then list_all raw_transfer_ok (elements (field tx ''crypto_transfer''))
       else \<not> truthy (field tx ''crypto_transfer'')))"

text \<open>
  An entry that certainly cannot be converted: it is null or absent, one of its
  timestamps does not convert to a date, or its hash is not a string.
\<close>

definition unconvertible :: "json \<Rightarrow> bool" where
  "unconvertible tx =
     (is_nullish tx \<or>
      \<not> valid_time (field tx ''consensus_timestamp'') \<or>
      \<not> valid_time (field tx ''valid_start_ns'') \<or>
      \<not> isString (field tx ''transaction_hash''))"

text \<open>The number that a value stands for in arithmetic, for the values that convert.\<close>

definition number_of :: "json \<Rightarrow> jsnum" where
  "number_of v = (case js_ToNumber v of Inl e \<Rightarrow> NaN | Inr n \<Rightarrow> n)"

text \<open>
  Stripping the escape prefix, in the words of the specification: a hash that begins
  with backslash and \<^verbatim>\<open>x\<close> loses these two characters, any other hash is kept.
\<close>

fun strip_escape :: "string \<Rightarrow> string" where
  "strip_escape (a # b # rest) = (if a = CHR 0x5C \<and> b = CHR ''x'' then rest else a # b # rest)"
| "strip_escape h = h"

text \<open>The string held by a value.\<close>

fun the_string :: "json \<Rightarrow> string" where
  "the_string (JStr s) = s"
| "the_string _ = []"

text \<open>
  Reading an ISO-8601 timestamp back: the digits after the decimal point, as a fraction
  of a second, in nanoseconds.
\<close>

definition fraction_nanos :: "string \<Rightarrow> int" where
  "fraction_nanos str =
     (let fr = takeWhile is_digit (drop 1 (dropWhile (\<lambda>c. c \<noteq> CHR ''.'') str))
      in digits_val (take 9 (fr @ replicate 9 (CHR ''0''))))"

text \<open>Sample data for the concrete instances below.\<close>

definition sample_transfers :: json where
  "sample_transfers =
     JArr [JObj [(''entity_id'', JNum (Fin 3)), (''amount'', JNum (Fin (- 5)))],
           JObj [(''entity_id'', JNum (Fin 3)), (''amount'', JNum (Fin 4000))],
           JObj [(''entity_id'', JNum (Fin 657983)), (''amount'', JNum (Fin 96000))],
           JObj [(''entity_id'', JNum (Fin 26027)), (''amount'', JNum (Fin (- 100000)))]]"

definition sample_tx :: json where
  "sample_tx =
     JObj [(''consensus_timestamp'', JStr ''1700000000123456789''),
           (''payer_account_id'', JNum (Fin 26027)),
           (''result'', JNum (Fin 22)),
           (''charged_tx_fee'', JNum (Fin 100000)),
           (''decoded_memo'', JStr ''kpay.live''),
           (''transaction_hash'', JStr (escape_prefix @ ''ab12'')),
           (''node_account_id'', JNum (Fin 3)),
           (''valid_start_ns'', JStr ''1700000000000000000''),
           (''crypto_transfer'', sample_transfers)]"

definition sample_canonical :: canonical_tx where
  "sample_canonical =
     \<lparr>transactionID = ''000260271700000000000000000'',
      readableTransactionID = ''0.0.26027@1700000000.0'',
      transactionHash = ''ab12'',
      payerID = ''0.0.26027'',
      startTime = ''2023-11-14T22:13:20.000000Z'',
      nodeID = ''0.0.3'',
      consensusTime = ''2023-11-14T22:13:20.456768Z'',
      transactionFee = JNum (Fin 100000),
      nodeFees = JNum (Fin 4000),
      networkFees = Fin 96000,
      transfers =
        [\<lparr>accountID = ''0.0.3'', amount_tr = JNum (Fin (- 5))\<rparr>,
         \<lparr>accountID = ''0.0.3'', amount_tr = JNum (Fin 4000)\<rparr>,
         \<lparr>accountID = ''0.0.657983'', amount_tr = JNum (Fin 96000)\<rparr>,
         \<lparr>accountID = ''0.0.26027'', amount_tr = JNum (Fin (- 100000))\<rparr>],
      status_tx = ''SUCCESS'',
      amount_tx = JNum (Fin 100000),
      memo = JStr ''kpay.live'',
      transactionType = ''CRYPTO_TRANSFER'',
      knownLabel = ''CryptoTransfer'',
      typeLabel = ''Crypto Transfer'',
      serviceType = ''CRYPTO'',
      source = ''hgraphio''\<rparr>"

text \<open>A second transaction, of another payer, without transfers and with a plain hash.\<close>

definition other_tx :: json where
  "other_tx =
     JObj [(''consensus_timestamp'', JNum (Fin 1500000)),
           (''payer_account_id'', JNum (Fin 5)),
           (''result'', JNum (Fin 10)),
           (''charged_tx_fee'', JNum (Fin 7)),
           (''decoded_memo'', JNull),
           (''transaction_hash'', JStr ''00ff''),
           (''node_account_id'', JNum (Fin 4)),
           (''valid_start_ns'', JNum (Fin 1000000))]"

definition sample_data :: json where
  "sample_data = JObj [(''transaction'', JArr [sample_tx, other_tx, sample_tx])]"

text \<open>A transaction whose consensus time lies past the last date that can be represented.\<close>

definition late_tx :: json where
  "late_tx =
     JObj [(''consensus_timestamp'', JStr ''9000000000000000000000''),
           (''payer_account_id'', JNum (Fin 26027)),
           (''result'', JNum (Fin 22)),
           (''charged_tx_fee'', JNum (Fin 100000)),
           (''transaction_hash'', JStr ''ab12''),
           (''node_account_id'', JNum (Fin 3)),
           (''valid_start_ns'', JStr ''1700000000000000000'')]"

definition late_data :: json where
  "late_data = JObj [(''transaction'', JArr [late_tx])]"

text \<open>A transaction with a fee of 2^54 tinybars, of which 1 goes to the node.\<close>

definition large_fee_tx :: json where
  "large_fee_tx =
     JObj [(''consensus_timestamp'', JStr ''1700000000123456789''),
           (''payer_account_id'', JNum (Fin 26027)),
           (''result'', JNum (Fin 22)),
           (''charged_tx_fee'', JNum (Fin 18014398509481984)),
           (''transaction_hash'', JStr ''ab12''),
           (''node_account_id'', JNum (Fin 3)),
           (''valid_start_ns'', JStr ''1700000000000000000''),
           (''crypto_transfer'',
              JArr [JObj [(''entity_id'', JNum (Fin 3)), (''amount'', JNum (Fin 1))]])]"

text \<open>An entry without any field, and a response that carries it.\<close>

definition empty_entry_data :: json where
  "empty_entry_data = JObj [(''transaction'', JArr [JObj []])]"

section \<open>Properties of the comparison\<close>

lemma filter_notin_empty_iff: "filter (\<lambda>h. h \<notin> A) xs = [] \<longleftrightarrow> set xs \<subseteq> A"
  by (induction xs) auto

text \<open>
  Claim C1. For all hash lists \<open>H1\<close> (explorer) and \<open>H2\<close> (indexer), the status of
  \<open>compareAndGetStatus H1 H2\<close> is \<^verbatim>\<open>match\<close> if and only if both lists have the same set
  of elements; with status \<^verbatim>\<open>match\<close> the discrepancies are null, and otherwise the
  status is \<^verbatim>\<open>discrepancy_detected\<close> and the discrepancies are not null.
\<close>

theorem compareAndGetStatus_match_iff:
  "(status (compareAndGetStatus H1 H2) = ''match'' \<longleftrightarrow> set H1 = set H2) \<and>
   (status (compareAndGetStatus H1 H2) = ''match'' \<longrightarrow>
      discrepancies (compareAndGetStatus H1 H2) = None) \<and>
   (status (compareAndGetStatus H1 H2) \<noteq> ''match'' \<longrightarrow>
      status (compareAndGetStatus H1 H2) = ''discrepancy_detected'' \<and>
      discrepancies (compareAndGetStatus H1 H2) \<noteq> None)"
  by (auto simp: compareAndGetStatus_def Let_def filter_notin_empty_iff)

theorem compareAndGetStatus_match_iff_witness:
  "status (compareAndGetStatus [''aa'', ''bb''] [''bb'', ''aa'', ''aa'']) = ''match'' \<and>
   discrepancies (compareAndGetStatus [''aa'', ''bb''] [''bb'', ''aa'', ''aa'']) = None \<and>
   status (compareAndGetStatus [''aa''] [''bb'']) = ''discrepancy_detected'' \<and>
   discrepancies (compareAndGetStatus [''aa''] [''bb'']) \<noteq> None"
proof -
  have same: "set [''aa'', ''bb''] = set [''bb'', ''aa'', ''aa'']"
    by auto
  have differ: "set [''aa''] \<noteq> set [''bb'']"
    by simp
  from same compareAndGetStatus_match_iff [of "[''aa'', ''bb'']" "[''bb'', ''aa'', ''aa'']"]
  have m: "status (compareAndGetStatus [''aa'', ''bb''] [''bb'', ''aa'', ''aa'']) = ''match'' \<and>
      discrepancies (compareAndGetStatus [''aa'', ''bb''] [''bb'', ''aa'', ''aa'']) = None"
    by blast
  from differ compareAndGetStatus_match_iff [of "[''aa'']" "[''bb'']"]
  have n: "status (compareAndGetStatus [''aa''] [''bb'']) = ''discrepancy_detected'' \<and>
      discrepancies (compareAndGetStatus [''aa''] [''bb'']) \<noteq> None"
    by blast
  from m n show ?thesis by blast
qed

text \<open>
  Claim C6. The comparison is symmetric in content: the list \<^verbatim>\<open>missing_in_dragonglass\<close>
  of \<open>compareAndGetStatus H1 H2\<close> is the list \<^verbatim>\<open>missing_in_hgraph\<close> of
  \<open>compareAndGetStatus H2 H1\<close>, and one report has null discrepancies exactly when the
  other has.
\<close>

theorem compare_missing_symmetric:
  "map_option missing_in_dragonglass (discrepancies (compareAndGetStatus H1 H2)) =
   map_option missing_in_hgraph (discrepancies (compareAndGetStatus H2 H1))"
  by (auto simp: compareAndGetStatus_def Let_def)

section \<open>Properties of the hash cleaning\<close>

lemma startsWith_iff: "startsWith s p \<longleftrightarrow> (\<exists>t. s = p @ t)"
  unfolding startsWith_def by (metis append_eq_conv_conj append_take_drop_id)

lemma length_escape_prefix: "length escape_prefix = 2"
  by (simp add: escape_prefix_def)

lemma startsWith_double:
  "startsWith h (escape_prefix @ escape_prefix) \<longleftrightarrow>
     startsWith h escape_prefix \<and> startsWith (drop 2 h) escape_prefix"
proof
  assume "startsWith h (escape_prefix @ escape_prefix)"
  then obtain t where "h = escape_prefix @ escape_prefix @ t"
    by (auto simp: startsWith_iff)
  then show "startsWith h escape_prefix \<and> startsWith (drop 2 h) escape_prefix"
    by (simp add: startsWith_iff length_escape_prefix)
next
  assume "startsWith h escape_prefix \<and> startsWith (drop 2 h) escape_prefix"
  then obtain t u where t: "h = escape_prefix @ t" and u: "drop 2 h = escape_prefix @ u"
    by (auto simp: startsWith_iff)
  from t have "drop 2 h = t"
    by (simp add: length_escape_prefix)
  with t u show "startsWith h (escape_prefix @ escape_prefix)"
    by (auto simp: startsWith_iff)
qed

text \<open>
  Claim C4, as stated: stripping the escape prefix twice equals stripping it once, for
  every hash string. This fails for a string that begins with two escape prefixes: the
  first call removes one of them, the second call the other.
\<close>

theorem cleanTransactionHash_twice_counterexample:
  "cleanTransactionHash (cleanTransactionHash (escape_prefix @ escape_prefix @ ''ab'')) \<noteq>
   cleanTransactionHash (escape_prefix @ escape_prefix @ ''ab'')"
  by (simp add: cleanTransactionHash_def startsWith_def slice_from_def escape_prefix_def)

text \<open>
  Claim C4, amended. Stripping the escape prefix twice equals stripping it once exactly
  for the hash strings that do not begin with two consecutive escape prefixes; in
  particular for every hash with at most one escape prefix.
\<close>

theorem cleanTransactionHash_idempotent_iff:
  "cleanTransactionHash (cleanTransactionHash h) = cleanTransactionHash h \<longleftrightarrow>
     \<not> startsWith h (escape_prefix @ escape_prefix)"
proof (cases "startsWith (cleanTransactionHash h) escape_prefix")
  case True
  then have len: "2 \<le> length (cleanTransactionHash h)"
    by (auto simp: startsWith_iff length_escape_prefix)
  have "cleanTransactionHash (cleanTransactionHash h) = drop 2 (cleanTransactionHash h)"
    using True by (simp add: cleanTransactionHash_def slice_from_def)
  then have "length (cleanTransactionHash (cleanTransactionHash h)) \<noteq>
      length (cleanTransactionHash h)"
    using len by simp
  then have ne: "cleanTransactionHash (cleanTransactionHash h) \<noteq> cleanTransactionHash h"
    by auto
  have "startsWith h (escape_prefix @ escape_prefix)"
    using True
    by (auto simp: startsWith_double cleanTransactionHash_def slice_from_def split: if_splits)
  with ne show ?thesis by simp
next
  case False
  then have eq: "cleanTransactionHash (cleanTransactionHash h) = cleanTransactionHash h"
    by (simp add: cleanTransactionHash_def)
  have "\<not> startsWith h (escape_prefix @ escape_prefix)"
    using False
    by (auto simp: startsWith_double cleanTransactionHash_def slice_from_def split: if_splits)
  with eq show ?thesis by simp
qed

theorem cleanTransactionHash_idempotent_iff_witness:
  "\<not> startsWith (escape_prefix @ ''ab12'') (escape_prefix @ escape_prefix) \<and>
   cleanTransactionHash (cleanTransactionHash (escape_prefix @ ''ab12'')) =
   cleanTransactionHash (escape_prefix @ ''ab12'')"
proof -
  have n: "\<not> startsWith (escape_prefix @ ''ab12'') (escape_prefix @ escape_prefix)"
    by (simp add: startsWith_def escape_prefix_def)
  with cleanTransactionHash_idempotent_iff [of "escape_prefix @ ''ab12''"] show ?thesis
    by blast
qed

section \<open>Properties of the precision fix\<close>

lemma is_number_fixIntegerPrecision: "is_number (fixIntegerPrecision v) = is_number v"
  by (cases v) auto

lemma fix_timestamp_twice: "fix_timestamp (fix_timestamp v) = fix_timestamp v"
  by (cases v) auto

lemma fixIntegerPrecision_fix_timestamp:
  "\<not> is_number (fix_timestamp v) \<Longrightarrow> is_number v \<Longrightarrow>
     fixIntegerPrecision (fix_timestamp v) = fix_timestamp v"
  by (cases v) (auto split: if_splits)

text \<open>
  Claim C9. \<open>fixIntegerPrecision\<close> is idempotent: a second pass over the result of a
  first pass changes nothing, for every JSON value.
\<close>

theorem fixIntegerPrecision_idempotent:
  "fixIntegerPrecision (fixIntegerPrecision v) = fixIntegerPrecision v"
proof (induction v)
  case (JArr xs)
  then show ?case by (simp add: map_idI)
next
  case (JObj kvs)
  define g where "g = (\<lambda>kv. (fst kv,
      if is_timestamp_key (fst kv) \<and> is_number (snd kv)
      then fix_timestamp (snd kv) else fixIntegerPrecision (snd kv)))"
  have obj: "fixIntegerPrecision (JObj xs) = JObj (map g xs)" for xs
    by (simp add: g_def)
  have "g (g kv) = g kv" if "kv \<in> set kvs" for kv
  proof -
    have ih: "fixIntegerPrecision (fixIntegerPrecision (snd kv)) = fixIntegerPrecision (snd kv)"
      using JObj.IH [of kv "snd kv"] that by (cases kv) auto
    show ?thesis
    proof (cases "is_timestamp_key (fst kv) \<and> is_number (snd kv)")
      case True
      then show ?thesis
        by (cases "is_number (fix_timestamp (snd kv))")
           (simp_all add: g_def fix_timestamp_twice fixIntegerPrecision_fix_timestamp)
    next
      case False
      then show ?thesis
        using ih by (auto simp: g_def is_number_fixIntegerPrecision)
    qed
  qed
  then have "map g (map g kvs) = map g kvs"
    by simp
  then show ?case
    by (simp only: obj)
qed simp_all

text \<open>
  Claim C3 says that a numeric timestamp field beyond the exact-integer range, or
  printed with an exponent, becomes a string without exponent whose digits are the
  value. The code is evaluated here at two inputs. A value of 1e21 is printed with an
  exponent, and \<^verbatim>\<open>Math.floor(value).toString()\<close> prints it with the exponent again.
  The JSON number 1700000000123456789 is read as the nearest double,
  1700000000123456768, and \<^verbatim>\<open>value.toString()\<close> prints the shortest digits that
  identify this double, which are the digits of neither number.
\<close>

theorem fixIntegerPrecision_not_exact_digits:
  "fixIntegerPrecision (JObj [(''consensus_timestamp'', JNum (Fin 1000000000000000000000))]) =
     JObj [(''consensus_timestamp'', JStr ''1e+21'')] \<and>
   round_double 1700000000123456789 = Fin 1700000000123456768 \<and>
   fixIntegerPrecision (JObj [(''valid_start_ns'', JNum (Fin 1700000000123456768))]) =
     JObj [(''valid_start_ns'', JStr ''1700000000123456800'')]"
  by code_simp

section \<open>Properties of the number model\<close>

text \<open>
  Every integer of magnitude at most \<open>2^53 - 1\<close> is a double: rounding leaves it as it
  is.
\<close>

lemma ilog2_of_int:
  assumes "0 < k"
  shows "ilog2 (of_int k) = bitlen k - 1"
proof -
  have b: "1 \<le> bitlen k"
    using assms by (simp add: bitlen_ge_iff_power)
  have "(2::int) ^ nat (bitlen k - 1) \<le> k"
    using bitlen_bounds [OF assms] by simp
  then have "(of_int ((2::int) ^ nat (bitlen k - 1)) :: rat) \<le> of_int k"
    by (simp only: of_int_le_iff)
  then have "pow2 (bitlen k - 1) \<le> of_int k"
    using b by (simp add: pow2_def)
  moreover have "bitlen (1::int) = 1"
    by (simp add: bitlen_alt_def)
  ultimately show ?thesis
    by (simp add: ilog2_def Let_def)
qed

lemma rne_of_int: "rne (of_int z) = z"
  by (simp add: rne_def Let_def)

lemma round_double_pos_int:
  assumes "0 < k" and "k \<le> 9007199254740991"
  shows "round_double (of_int k) = Fin (of_int k)"
proof -
  have "k < 2 ^ nat 53"
    using assms by simp
  then have le: "bitlen k \<le> 53"
    by (simp add: bitlen_le_iff_power)
  have ge: "1 \<le> bitlen k"
    using assms by (simp add: bitlen_ge_iff_power)
  define j where "j = nat (53 - bitlen k)"
  have e: "max (ilog2 (of_int k) - 52) (- 1074) = - int j"
    using le ge assms by (simp add: ilog2_of_int j_def)
  have p: "pow2 (- int j) = 1 / 2 ^ j"
    by (cases "j = 0") (simp_all add: pow2_def)
  have q: "(of_int k :: rat) / pow2 (- int j) = of_int (k * 2 ^ j)"
    by (simp add: p)
  have a: "\<bar>of_int k :: rat\<bar> = of_int k"
    using assms by simp
  have m: "rne (of_int k / pow2 (- int j)) = k * 2 ^ j"
    by (simp only: q rne_of_int)
  have bl: "bitlen (k * 2 ^ j) = bitlen k + int j"
    using assms by simp
  have v: "(of_int (k * 2 ^ j) :: rat) * pow2 (- int j) = of_int k"
    by (simp add: p)
  have nz: "(of_int k :: rat) \<noteq> 0" and pos: "(0::rat) < of_int k"
    using assms by simp_all
  have "round_double (of_int k) =
      (if 1024 < - int j + (bitlen k + int j) then PosInf else Fin (of_int k))"
    by (simp only: round_double_def Let_def a e m bl v nz pos if_False if_True)
  then show ?thesis
    using le by simp
qed

lemma round_double_of_int:
  assumes "\<bar>n\<bar> \<le> 9007199254740991"
  shows "round_double (of_int n) = Fin (of_int n)"
proof (cases "n = 0")
  case True
  then show ?thesis by (simp add: round_double_def)
next
  case False
  show ?thesis
  proof (cases "0 < n")
    case True
    with assms show ?thesis by (simp add: round_double_pos_int)
  next
    case neg: False
    with False have k: "0 < - n" "- n \<le> 9007199254740991"
      using assms by simp_all
    have r: "round_double (of_int (- n)) = Fin (of_int (- n))"
      using k by (rule round_double_pos_int)
    have a: "\<bar>of_int n :: rat\<bar> = \<bar>of_int (- n)\<bar>"
      by simp
    have nz: "(of_int n :: rat) \<noteq> 0" "\<not> (0::rat) < of_int n" "(0::rat) < of_int (- n)"
      using False neg k by simp_all
    from r show ?thesis
      unfolding round_double_def Let_def a
      using nz by (simp split: if_splits)
  qed
qed

section \<open>Properties of the timestamp conversion\<close>

text \<open>
  Claim C2 says that the fractional seconds of \<^verbatim>\<open>consensusTime\<close> and \<^verbatim>\<open>startTime\<close>
  carry the whole sub-second part of the input, in nanoseconds. The code is evaluated
  here at two inputs. For 1500000 nanoseconds the date is
  \<^verbatim>\<open>1970-01-01T00:00:00.001Z\<close>; the three millisecond digits are replaced by the six
  digits of the input modulo 1000000, so the result reads as half a second. For
  1700000000123456789 the number conversion rounds to 1700000000123456768 first, and the
  result reads as 456768000 nanoseconds where the input has 123456789.
\<close>

theorem nanosToISOString_fraction_not_preserved:
  "nanosToISOString (JStr ''1500000'') = Inr ''1970-01-01T00:00:00.500000Z'' \<and>
   fraction_nanos ''1970-01-01T00:00:00.500000Z'' = 500000000 \<and>
   (1500000 :: int) mod 1000000000 = 1500000 \<and>
   field sample_tx ''consensus_timestamp'' = JStr ''1700000000123456789'' \<and>
   map_sum id consensusTime (transform_tx sample_tx) = Inr ''2023-11-14T22:13:20.456768Z'' \<and>
   fraction_nanos ''2023-11-14T22:13:20.456768Z'' = 456768000 \<and>
   (1700000000123456789 :: int) mod 1000000000 = 123456789"
  by code_simp

section \<open>The transformation of one transaction\<close>

text \<open>
  A raw transaction as the data model describes it is converted without a throw, and
  the fields of the result are those of the input. An entry that is null or absent, or
  has a timestamp that does not convert, or has no string hash, makes the callback throw.
\<close>

lemma call_toString_nanos_string: "call_toString v = nanos_string v"
  by (cases v) (simp_all add: call_toString_def is_nullish_def)

lemma is_prim_ToString: "is_prim v \<Longrightarrow> js_ToString v = Inr (string_of v)"
  by (cases v) (simp_all add: string_of_def)

lemma is_prim_ToNumber: "is_prim v \<Longrightarrow> js_ToNumber v = Inr (number_of v)"
  by (cases v) (simp_all add: number_of_def)

lemma nanos_string_ToString:
  assumes "nanos_string v = Inr s"
  shows "\<not> is_nullish v \<and> js_ToString v = Inr s \<and> call_toString v = Inr s"
  using assms by (cases v) (simp_all add: call_toString_def is_nullish_def)

lemma valid_time_nanos_string: "valid_time v \<Longrightarrow> \<exists>s. nanos_string v = Inr s"
  by (cases "nanos_string v") (simp_all add: valid_time_def)

lemma nanosToISOString_valid:
  assumes "valid_time v"
  shows "\<exists>s. nanosToISOString v = Inr s"
proof -
  from assms obtain ns where ns: "nanos_string v = Inr ns"
    using valid_time_nanos_string by blast
  with assms obtain t where
    "js_floor (js_div (js_Number ns) (Fin 1000000)) = Fin t" "\<bar>t\<bar> \<le> 8640000000000000"
    by (auto simp: valid_time_def split: jsnum.splits)
  with ns show ?thesis
    by (simp add: nanosToISOString_def toISOString_def)
qed

lemma nanosToISOString_invalid:
  assumes "\<not> valid_time v"
  shows "\<exists>e. nanosToISOString v = Inl e"
proof (cases "nanos_string v")
  case (Inl e)
  then show ?thesis by (simp add: nanosToISOString_def)
next
  case (Inr ns)
  show ?thesis
  proof (cases "js_floor (js_div (js_Number ns) (Fin 1000000))")
    case (Fin t)
    with assms Inr have "\<not> \<bar>t\<bar> \<le> 8640000000000000"
      by (simp add: valid_time_def)
    with Fin Inr show ?thesis
      by (simp add: nanosToISOString_def toISOString_def)
  qed (simp_all add: Inr nanosToISOString_def toISOString_def)
qed

lemma map_throwing_all:
  "(\<And>x. x \<in> set xs \<Longrightarrow> f x = Inr (g x)) \<Longrightarrow> map_throwing f xs = Inr (map g xs)"
  by (induction xs) simp_all

lemma find_throwing_all:
  "(\<And>x. x \<in> set xs \<Longrightarrow> p x = Inr (q x)) \<Longrightarrow> find_throwing p xs = Inr (find q xs)"
  by (induction xs) simp_all

lemma convert_transfer_ok:
  assumes "raw_transfer_ok t"
  shows "convert_transfer t =
     Inr \<lparr>accountID = ''0.0.'' @ string_of (field t ''entity_id''),
          amount_tr = field t ''amount''\<rparr>"
  using assms
  by (simp add: raw_transfer_ok_def convert_transfer_def get_prop_def is_prim_ToString)

lemma is_node_fee_ok:
  assumes "is_prim node" and "is_prim (amount_tr t)"
  shows "is_node_fee node t =
     Inr (accountID t = ''0.0.'' @ string_of node \<and> js_gt (number_of (amount_tr t)) (Fin 0))"
  using assms by (simp add: is_node_fee_def is_prim_ToString is_prim_ToNumber)

lemma js_Number_empty: "js_Number [] = Fin 0"
  by (simp add: js_Number_def trim_def)

lemma positive_truthy: "js_gt (number_of v) (Fin 0) \<Longrightarrow> truthy v"
  by (cases v) (auto simp: number_of_def js_Number_empty split: if_splits)

lemma transfer_list_ok:
  assumes "if isArray c then P else \<not> truthy c"
  shows "transfer_list c = Inr (elements c)"
  using assms by (cases c) (simp_all split: if_splits)

lemma find_SomeD: "find P xs = Some x \<Longrightarrow> x \<in> set xs \<and> P x"
  by (induction xs) (auto split: if_splits)

lemma elements_not_array: "\<not> isArray c \<Longrightarrow> elements c = []"
  by (cases c) simp_all

lemma isString_the_string: "isString v \<Longrightarrow> v = JStr (the_string v)"
  by (cases v) simp_all

lemma transform_tx_ok:
  assumes "raw_tx_ok tx"
  shows "\<exists>r. transform_tx tx = Inr r \<and>
     nanosToISOString (field tx ''consensus_timestamp'') = Inr (consensusTime r) \<and>
     nanosToISOString (field tx ''valid_start_ns'') = Inr (startTime r) \<and>
     transactionHash r = cleanTransactionHash (the_string (field tx ''transaction_hash'')) \<and>
     payerID r = ''0.0.'' @ string_of (field tx ''payer_account_id'') \<and>
     nodeID r = ''0.0.'' @ string_of (field tx ''node_account_id'') \<and>
     transactionFee r = field tx ''charged_tx_fee'' \<and>
     transfers r =
       map (\<lambda>t. \<lparr>accountID = ''0.0.'' @ string_of (field t ''entity_id''),
                  amount_tr = field t ''amount''\<rparr>)
         (elements (field tx ''crypto_transfer'')) \<and>
     nodeFees r =
       amount_or_zero
         (find (\<lambda>t. accountID t = ''0.0.'' @ string_of (field tx ''node_account_id'') \<and>
                    js_gt (number_of (amount_tr t)) (Fin 0))
            (transfers r)) \<and>
     networkFees r = js_sub (number_of (transactionFee r)) (number_of (nodeFees r)) \<and>
     source r = ''hgraphio''"
proof -
  let ?conv = "\<lambda>t. \<lparr>accountID = ''0.0.'' @ string_of (field t ''entity_id''),
                     amount_tr = field t ''amount''\<rparr>"
  let ?ts = "elements (field tx ''crypto_transfer'')"
  let ?q = "\<lambda>t. accountID t = ''0.0.'' @ string_of (field tx ''node_account_id'') \<and>
                 js_gt (number_of (amount_tr t)) (Fin 0)"
  from assms have nn: "\<not> is_nullish tx"
    and vc: "valid_time (field tx ''consensus_timestamp'')"
    and vs: "valid_time (field tx ''valid_start_ns'')"
    and hs: "isString (field tx ''transaction_hash'')"
    and pp: "is_prim (field tx ''payer_account_id'')"
    and pn: "is_prim (field tx ''node_account_id'')"
    and pf: "is_prim (field tx ''charged_tx_fee'')"
    and ct: "if isArray (field tx ''crypto_transfer'')
             then list_all raw_transfer_ok (elements (field tx ''crypto_transfer''))
             else \<not> truthy (field tx ''crypto_transfer'')"
    by (simp_all add: raw_tx_ok_def)
  obtain c where c: "nanosToISOString (field tx ''consensus_timestamp'') = Inr c"
    using nanosToISOString_valid [OF vc] by blast
  obtain s where s: "nanosToISOString (field tx ''valid_start_ns'') = Inr s"
    using nanosToISOString_valid [OF vs] by blast
  obtain ns where "nanos_string (field tx ''valid_start_ns'') = Inr ns"
    using valid_time_nanos_string [OF vs] by blast
  then have ns: "js_ToString (field tx ''valid_start_ns'') = Inr ns"
      "call_toString (field tx ''valid_start_ns'') = Inr ns"
    using nanos_string_ToString by blast+
  have h: "call_cleanTransactionHash (field tx ''transaction_hash'') =
      Inr (cleanTransactionHash (the_string (field tx ''transaction_hash'')))"
    using isString_the_string [OF hs]
    by (metis call_cleanTransactionHash.simps(1))
  have tl: "transfer_list (field tx ''crypto_transfer'') = Inr ?ts"
    using ct by (rule transfer_list_ok)
  have allok: "\<And>t. t \<in> set ?ts \<Longrightarrow> raw_transfer_ok t"
    using ct by (cases "isArray (field tx ''crypto_transfer'')")
      (auto simp: list_all_iff elements_not_array)
  have mt: "map_throwing convert_transfer ?ts = Inr (map ?conv ?ts)"
    by (rule map_throwing_all) (simp add: convert_transfer_ok allok)
  have prims: "\<And>t. t \<in> set (map ?conv ?ts) \<Longrightarrow> is_prim (amount_tr t)"
    using allok by (auto simp: raw_transfer_ok_def)
  have ft: "find_throwing (is_node_fee (field tx ''node_account_id'')) (map ?conv ?ts) =
      Inr (find ?q (map ?conv ?ts))"
    by (rule find_throwing_all) (simp add: is_node_fee_ok [OF pn] prims)
  have pz: "is_prim (amount_or_zero (find ?q (map ?conv ?ts)))"
  proof (cases "find ?q (map ?conv ?ts)")
    case None
    then show ?thesis by simp
  next
    case (Some t)
    then have "t \<in> set (map ?conv ?ts)"
      using find_SomeD by fastforce
    then have "is_prim (amount_tr t)"
      by (rule prims)
    with Some show ?thesis
      by (simp add: js_or_def)
  qed
  show ?thesis
    using nn c s ns h tl mt ft is_prim_ToString [OF pp] is_prim_ToString [OF pn]
      is_prim_ToNumber [OF pf] is_prim_ToNumber [OF pz]
    by (simp add: transform_tx_def get_prop_def)
qed

lemma transform_tx_unconvertible:
  assumes "unconvertible tx"
  shows "\<exists>e. transform_tx tx = Inl e"
proof (cases "is_nullish tx")
  case True
  then show ?thesis by (simp add: transform_tx_def get_prop_def)
next
  case nn: False
  show ?thesis
  proof (cases "valid_time (field tx ''consensus_timestamp'')")
    case False
    then obtain e where "nanosToISOString (field tx ''consensus_timestamp'') = Inl e"
      using nanosToISOString_invalid by blast
    with nn show ?thesis by (simp add: transform_tx_def get_prop_def)
  next
    case vc: True
    then obtain c where c: "nanosToISOString (field tx ''consensus_timestamp'') = Inr c"
      using nanosToISOString_valid by blast
    show ?thesis
    proof (cases "valid_time (field tx ''valid_start_ns'')")
      case False
      then obtain e where "nanosToISOString (field tx ''valid_start_ns'') = Inl e"
        using nanosToISOString_invalid by blast
      with nn c show ?thesis by (simp add: transform_tx_def get_prop_def)
    next
      case vs: True
      then obtain s where s: "nanosToISOString (field tx ''valid_start_ns'') = Inr s"
        using nanosToISOString_valid by blast
      from assms nn vc vs have "\<not> isString (field tx ''transaction_hash'')"
        by (simp add: unconvertible_def)
      then have "call_cleanTransactionHash (field tx ''transaction_hash'') = Inl TypeError"
        by (cases "field tx ''transaction_hash''") simp_all
      with nn c s show ?thesis by (simp add: transform_tx_def get_prop_def)
    qed
  qed
qed

lemma map_throwing_length:
  "map_throwing f xs = Inr ys \<Longrightarrow> length ys = length xs"
  by (induction xs arbitrary: ys) (auto split: sum.splits)

lemma map_throwing_set:
  "map_throwing f xs = Inr ys \<Longrightarrow> y \<in> set ys \<Longrightarrow> \<exists>x\<in>set xs. f x = Inr y"
  by (induction xs arbitrary: ys) (auto split: sum.splits)

lemma map_throwing_all_ok:
  "(\<And>x. x \<in> set xs \<Longrightarrow> \<exists>y. f x = Inr y) \<Longrightarrow> \<exists>ys. map_throwing f xs = Inr ys"
proof (induction xs)
  case Nil
  then show ?case by simp
next
  case (Cons x xs)
  then obtain y ys where "f x = Inr y" "map_throwing f xs = Inr ys"
    by (meson list.set_intros)
  then show ?case by simp
qed

lemma map_throwing_some_error:
  "x \<in> set xs \<Longrightarrow> f x = Inl e \<Longrightarrow> \<exists>e'. map_throwing f xs = Inl e'"
  by (induction xs) (auto split: sum.splits)

lemma field_array_not_nullish: "field d k = JArr txs \<Longrightarrow> \<not> is_nullish d"
  by (cases d) (simp_all add: is_nullish_def)

lemma transform_list:
  assumes "field d ''transaction'' = JArr txs"
  shows "transformHGraphToDragonGlass d =
     then_do (map_throwing transform_tx txs) (\<lambda>transformedData.
       Inr \<lparr>size_env = length transformedData,
            totalCount = length transformedData,
            data_env = transformedData,
            facets =
              \<lparr>transactionTypes = [(''CRYPTO_TRANSFER'', length transformedData)],
               payerID_facet =
                 foldl (\<lambda>f tx. count_payer f (payerID tx)) [] transformedData,
               serviceTypes = [(''CRYPTO'', length transformedData)]\<rparr>,
            mapping = None\<rparr>)"
  using assms field_array_not_nullish [OF assms]
  by (simp add: transformHGraphToDragonGlass_def get_prop_def)

lemma transform_tx_source:
  assumes "transform_tx tx = Inr r"
  shows "source r = ''hgraphio''"
proof -
  have "then_do x f = Inr r \<Longrightarrow> (\<And>a. f a = Inr r \<Longrightarrow> P) \<Longrightarrow> P" for x :: "error + 'a" and f P
    by (cases x) simp_all
  note E = this
  from assms show ?thesis
    unfolding transform_tx_def
    by (elim E) auto
qed

section \<open>Properties of the hash extraction\<close>

text \<open>
  The function as the code writes it, with \<^verbatim>\<open>startsWith\<close> and \<^verbatim>\<open>slice\<close>, strips the
  escape prefix as the specification words it; and the default sort of a list of strings
  is the ascending order of the strings, compared code unit by code unit.
\<close>

lemma cleanTransactionHash_strip_escape: "cleanTransactionHash h = strip_escape h"
proof (cases h)
  case Nil
  then show ?thesis
    by (simp add: cleanTransactionHash_def startsWith_def escape_prefix_def)
next
  case (Cons a t)
  show ?thesis
  proof (cases t)
    case Nil
    with Cons show ?thesis
      by (simp add: cleanTransactionHash_def startsWith_def escape_prefix_def)
  next
    case (Cons b rest)
    with \<open>h = a # t\<close> show ?thesis
      by (simp add: cleanTransactionHash_def startsWith_def escape_prefix_def slice_from_def)
  qed
qed

lemma insort_key_map:
  "insort_key f (g x) (map g ys) = map g (insort_key (\<lambda>y. f (g y)) x ys)"
  by (induction ys) simp_all

lemma sort_key_map: "sort_key f (map g xs) = map g (sort_key (\<lambda>y. f (g y)) xs)"
  by (induction xs) (simp_all add: insort_key_map)

lemma js_sort_strings: "js_sort (map JStr ss) = Inr (map JStr (sort ss))"
proof -
  have d: "filter (\<lambda>v. v \<noteq> JUndefined) (map JStr ss) = map JStr ss"
    by (induction ss) simp_all
  have u: "filter (\<lambda>v. v = JUndefined) (map JStr ss) = []"
    by (induction ss) simp_all
  have n: "\<not> list_ex (\<lambda>v. js_ToString v = Inl TypeError) (map JStr ss)"
    by (induction ss) simp_all
  have k: "sort_key string_of (map JStr ss) = map JStr (sort ss)"
    by (simp add: sort_key_map string_of_def)
  show ?thesis
    by (simp only: js_sort_def Let_def d u n k) simp
qed

lemma map_sort_strings:
  assumes "\<And>tx. tx \<in> set txs \<Longrightarrow> f tx = Inr (JStr (g tx))"
  shows "map_sort f (JArr txs) = Inr (map JStr (sort (map g txs)))"
proof -
  have "map_throwing f txs = Inr (map (\<lambda>tx. JStr (g tx)) txs)"
    using assms by (rule map_throwing_all)
  then have "map_sort f (JArr txs) = js_sort (map JStr (map g txs))"
    by (simp add: comp_def)
  then show ?thesis
    by (simp only: js_sort_strings)
qed

lemma map_sort_falsy: "\<not> truthy v \<Longrightarrow> map_sort f v = Inr []"
  by (cases v) simp_all

lemma isString_not_nullish: "isString (field tx k) \<Longrightarrow> \<not> is_nullish tx"
  by (cases tx) (simp_all add: is_nullish_def)

lemma field_sample_data: "field sample_data ''transaction'' = JArr [sample_tx, other_tx, sample_tx]"
  by (simp add: sample_data_def)

lemma field_late_data: "field late_data ''transaction'' = JArr [late_tx]"
  by (simp add: late_data_def)

text \<open>
  Claim C7, as stated: for every input and source tag, \<open>createCanonicalHashArray\<close>
  returns a sorted list of cleaned hashes. This fails for a transaction list with an
  entry that has no hash: \<open>cleanTransactionHash\<close> calls \<^verbatim>\<open>startsWith\<close> on
  \<^verbatim>\<open>undefined\<close>, which throws \<^verbatim>\<open>TypeError\<close>, and no list is returned.
\<close>

theorem createCanonicalHashArray_throws_counterexample:
  "field empty_entry_data ''transaction'' = JArr [JObj []] \<and>
   field (JObj []) ''transaction_hash'' = JUndefined \<and>
   createCanonicalHashArray empty_entry_data ''hgraphio'' = Inl TypeError"
  by code_simp

text \<open>
  Claim C7, amended. For a source tag other than \<^verbatim>\<open>dragonglass\<close> and \<^verbatim>\<open>hgraphio\<close>,
  \<open>createCanonicalHashArray\<close> returns the empty list. For one of these two tags and an
  input (not null or absent) whose list field, \<^verbatim>\<open>data\<close> or \<^verbatim>\<open>transaction\<close>, is missing
  or otherwise falsy, it returns the empty list. For the tag \<^verbatim>\<open>dragonglass\<close> and a list
  \<^verbatim>\<open>data\<close> of records whose \<^verbatim>\<open>transactionHash\<close> are strings, it returns these strings in
  ascending order. For the tag \<^verbatim>\<open>hgraphio\<close> and a list \<^verbatim>\<open>transaction\<close> of entries whose
  \<^verbatim>\<open>transaction_hash\<close> are strings, it returns these strings, each with its escape prefix
  stripped, in ascending order. For the tag \<^verbatim>\<open>hgraphio\<close> and a list with an entry whose
  \<^verbatim>\<open>transaction_hash\<close> is not a string, it throws \<^verbatim>\<open>TypeError\<close>.
\<close>

theorem createCanonicalHashArray_sorted:
  "(src \<noteq> ''dragonglass'' \<and> src \<noteq> ''hgraphio'' \<longrightarrow> createCanonicalHashArray d src = Inr []) \<and>
   (src = ''dragonglass'' \<and> \<not> is_nullish d \<and> \<not> truthy (field d ''data'') \<longrightarrow>
      createCanonicalHashArray d src = Inr []) \<and>
   (src = ''hgraphio'' \<and> \<not> is_nullish d \<and> \<not> truthy (field d ''transaction'') \<longrightarrow>
      createCanonicalHashArray d src = Inr []) \<and>
   (\<forall>txs. src = ''dragonglass'' \<and> field d ''data'' = JArr txs \<and>
          (\<forall>tx\<in>set txs. isString (field tx ''transactionHash'')) \<longrightarrow>
      (\<exists>hs. createCanonicalHashArray d src = Inr (map JStr hs) \<and> sorted hs \<and>
         mset hs = mset (map (\<lambda>tx. the_string (field tx ''transactionHash'')) txs))) \<and>
   (\<forall>txs. src = ''hgraphio'' \<and> field d ''transaction'' = JArr txs \<and>
          (\<forall>tx\<in>set txs. isString (field tx ''transaction_hash'')) \<longrightarrow>
      (\<exists>hs. createCanonicalHashArray d src = Inr (map JStr hs) \<and> sorted hs \<and>
         mset hs =
           mset (map (\<lambda>tx. strip_escape (the_string (field tx ''transaction_hash''))) txs))) \<and>
   (\<forall>txs. src = ''hgraphio'' \<and> field d ''transaction'' = JArr txs \<and>
          (\<exists>tx\<in>set txs. \<not> isString (field tx ''transaction_hash'')) \<longrightarrow>
      createCanonicalHashArray d src = Inl TypeError)"
proof (intro conjI allI impI)
  assume "src \<noteq> ''dragonglass'' \<and> src \<noteq> ''hgraphio''"
  then show "createCanonicalHashArray d src = Inr []"
    by (simp add: createCanonicalHashArray_def)
next
  assume "src = ''dragonglass'' \<and> \<not> is_nullish d \<and> \<not> truthy (field d ''data'')"
  then show "createCanonicalHashArray d src = Inr []"
    by (simp add: createCanonicalHashArray_def get_prop_def map_sort_falsy)
next
  assume "src = ''hgraphio'' \<and> \<not> is_nullish d \<and> \<not> truthy (field d ''transaction'')"
  then show "createCanonicalHashArray d src = Inr []"
    by (simp add: createCanonicalHashArray_def get_prop_def map_sort_falsy)
next
  fix txs
  assume a: "src = ''dragonglass'' \<and> field d ''data'' = JArr txs \<and>
          (\<forall>tx\<in>set txs. isString (field tx ''transactionHash''))"
  then have nn: "\<not> is_nullish d"
    using field_array_not_nullish by blast
  have "map_sort (\<lambda>tx. get_prop tx ''transactionHash'') (JArr txs) =
      Inr (map JStr (sort (map (\<lambda>tx. the_string (field tx ''transactionHash'')) txs)))"
  proof (rule map_sort_strings)
    fix tx
    assume "tx \<in> set txs"
    with a have s: "isString (field tx ''transactionHash'')" by blast
    from isString_not_nullish [OF s] isString_the_string [OF s]
    show "get_prop tx ''transactionHash'' =
        Inr (JStr (the_string (field tx ''transactionHash'')))"
      by (simp add: get_prop_def)
  qed
  with a nn have "createCanonicalHashArray d src =
      Inr (map JStr (sort (map (\<lambda>tx. the_string (field tx ''transactionHash'')) txs)))"
    by (simp add: createCanonicalHashArray_def get_prop_def)
  then show "\<exists>hs. createCanonicalHashArray d src = Inr (map JStr hs) \<and> sorted hs \<and>
         mset hs = mset (map (\<lambda>tx. the_string (field tx ''transactionHash'')) txs)"
    by (intro exI [of _ "sort (map (\<lambda>tx. the_string (field tx ''transactionHash'')) txs)"])
       simp
next
  fix txs
  assume a: "src = ''hgraphio'' \<and> field d ''transaction'' = JArr txs \<and>
          (\<forall>tx\<in>set txs. isString (field tx ''transaction_hash''))"
  then have nn: "\<not> is_nullish d"
    using field_array_not_nullish by blast
  let ?f = "\<lambda>tx. then_do (get_prop tx ''transaction_hash'') (\<lambda>hash.
             then_do (call_cleanTransactionHash hash) (\<lambda>cleaned. Inr (JStr cleaned)))"
  have "map_sort ?f (JArr txs) =
      Inr (map JStr (sort (map (\<lambda>tx. strip_escape (the_string (field tx ''transaction_hash'')))
                             txs)))"
  proof (rule map_sort_strings)
    fix tx
    assume "tx \<in> set txs"
    with a have s: "isString (field tx ''transaction_hash'')" by blast
    have "call_cleanTransactionHash (field tx ''transaction_hash'') =
        Inr (strip_escape (the_string (field tx ''transaction_hash'')))"
      using isString_the_string [OF s]
      by (metis call_cleanTransactionHash.simps(1) cleanTransactionHash_strip_escape)
    with isString_not_nullish [OF s]
    show "?f tx = Inr (JStr (strip_escape (the_string (field tx ''transaction_hash''))))"
      by (simp add: get_prop_def)
  qed
  with a nn have "createCanonicalHashArray d src =
      Inr (map JStr (sort (map (\<lambda>tx. strip_escape (the_string (field tx ''transaction_hash'')))
                             txs)))"
    by (simp add: createCanonicalHashArray_def get_prop_def)
  then show "\<exists>hs. createCanonicalHashArray d src = Inr (map JStr hs) \<and> sorted hs \<and>
         mset hs =
           mset (map (\<lambda>tx. strip_escape (the_string (field tx ''transaction_hash''))) txs)"
    by (intro exI [of _ "sort (map (\<lambda>tx. strip_escape
          (the_string (field tx ''transaction_hash''))) txs)"]) simp
next
  fix txs
  assume a: "src = ''hgraphio'' \<and> field d ''transaction'' = JArr txs \<and>
          (\<exists>tx\<in>set txs. \<not> isString (field tx ''transaction_hash''))"
  then have nn: "\<not> is_nullish d"
    using field_array_not_nullish by blast
  let ?f = "\<lambda>tx. then_do (get_prop tx ''transaction_hash'') (\<lambda>hash.
             then_do (call_cleanTransactionHash hash) (\<lambda>cleaned. Inr (JStr cleaned)))"
  have err: "\<And>tx. (\<exists>y. ?f tx = Inr y) \<or> ?f tx = Inl TypeError"
  proof -
    fix tx
    show "(\<exists>y. ?f tx = Inr y) \<or> ?f tx = Inl TypeError"
      by (cases "is_nullish tx"; cases "field tx ''transaction_hash''")
         (simp_all add: get_prop_def)
  qed
  from a obtain tx where tx: "tx \<in> set txs" "\<not> isString (field tx ''transaction_hash'')"
    by blast
  have bad: "?f tx = Inl TypeError"
    using tx(2)
    by (cases "is_nullish tx"; cases "field tx ''transaction_hash''")
       (simp_all add: get_prop_def)
  have "map_throwing ?f txs = Inl TypeError"
    using tx(1) bad
  proof (induction txs)
    case Nil
    then show ?case by simp
  next
    case (Cons x xs)
    show ?case
    proof (cases "?f x")
      case (Inl e)
      with err [of x] show ?thesis by simp
    next
      case (Inr y)
      with Cons have "x \<noteq> tx" by auto
      with Cons have "map_throwing ?f xs = Inl TypeError" by simp
      with Inr show ?thesis by simp
    qed
  qed
  with a nn show "createCanonicalHashArray d src = Inl TypeError"
    by (simp add: createCanonicalHashArray_def get_prop_def)
qed

theorem createCanonicalHashArray_sorted_witness:
  "createCanonicalHashArray sample_data ''mirror'' = Inr [] \<and>
   createCanonicalHashArray sample_data ''dragonglass'' = Inr [] \<and>
   createCanonicalHashArray (JObj [(''transaction'', JNull)]) ''hgraphio'' = Inr [] \<and>
   (\<exists>hs. createCanonicalHashArray
            (JObj [(''data'', JArr [JObj [(''transactionHash'', JStr ''b1'')],
                                    JObj [(''transactionHash'', JStr ''a2'')]])])
            ''dragonglass'' = Inr (map JStr hs) \<and>
         sorted hs \<and> mset hs = mset [''b1'', ''a2'']) \<and>
   (\<exists>hs. createCanonicalHashArray sample_data ''hgraphio'' = Inr (map JStr hs) \<and>
         sorted hs \<and> mset hs = mset [''ab12'', ''00ff'', ''ab12'']) \<and>
   createCanonicalHashArray
     (JObj [(''transaction'', JArr [sample_tx, JObj [(''transaction_hash'', JNum (Fin 5))]])])
     ''hgraphio'' = Inl TypeError"
proof -
  have a: "createCanonicalHashArray sample_data ''mirror'' = Inr []"
    using createCanonicalHashArray_sorted [of "''mirror''" sample_data]
    by simp
  have b: "createCanonicalHashArray sample_data ''dragonglass'' = Inr []"
    using createCanonicalHashArray_sorted [of "''dragonglass''" sample_data]
    by (simp add: sample_data_def is_nullish_def)
  have c: "createCanonicalHashArray (JObj [(''transaction'', JNull)]) ''hgraphio'' = Inr []"
    using createCanonicalHashArray_sorted [of "''hgraphio''" "JObj [(''transaction'', JNull)]"]
    by (simp add: is_nullish_def)
  have d: "\<exists>hs. createCanonicalHashArray
            (JObj [(''data'', JArr [JObj [(''transactionHash'', JStr ''b1'')],
                                    JObj [(''transactionHash'', JStr ''a2'')]])])
            ''dragonglass'' = Inr (map JStr hs) \<and>
         sorted hs \<and> mset hs = mset [''b1'', ''a2'']"
    using createCanonicalHashArray_sorted
      [of "''dragonglass''"
          "JObj [(''data'', JArr [JObj [(''transactionHash'', JStr ''b1'')],
                                  JObj [(''transactionHash'', JStr ''a2'')]])]"]
    by simp
  have hashes: "map (\<lambda>tx. strip_escape (the_string (field tx ''transaction_hash'')))
        [sample_tx, other_tx, sample_tx] = [''ab12'', ''00ff'', ''ab12'']"
    by (simp add: sample_tx_def other_tx_def escape_prefix_def)
  have strings: "\<forall>tx\<in>set [sample_tx, other_tx, sample_tx].
      isString (field tx ''transaction_hash'')"
    by (simp add: sample_tx_def other_tx_def)
  from createCanonicalHashArray_sorted [of "''hgraphio''" sample_data]
    field_sample_data strings
  have "\<exists>hs. createCanonicalHashArray sample_data ''hgraphio'' = Inr (map JStr hs) \<and>
         sorted hs \<and>
         mset hs = mset (map (\<lambda>tx. strip_escape (the_string (field tx ''transaction_hash'')))
                           [sample_tx, other_tx, sample_tx])"
    by blast
  then have e: "\<exists>hs. createCanonicalHashArray sample_data ''hgraphio'' = Inr (map JStr hs) \<and>
         sorted hs \<and> mset hs = mset [''ab12'', ''00ff'', ''ab12'']"
    by (simp only: hashes)
  have f: "createCanonicalHashArray
     (JObj [(''transaction'', JArr [sample_tx, JObj [(''transaction_hash'', JNum (Fin 5))]])])
     ''hgraphio'' = Inl TypeError"
    using createCanonicalHashArray_sorted
      [of "''hgraphio''"
          "JObj [(''transaction'',
                  JArr [sample_tx, JObj [(''transaction_hash'', JNum (Fin 5))]])]"]
    by simp
  from a b c d e f show ?thesis
    by blast
qed

section \<open>Properties of the fees\<close>

lemma raw_tx_ok_sample_tx: "raw_tx_ok sample_tx"
  by code_simp

lemma raw_tx_ok_other_tx: "raw_tx_ok other_tx"
  by code_simp

lemma unconvertible_late_tx: "unconvertible late_tx"
  by code_simp

lemma transform_tx_sample: "transform_tx sample_tx = Inr sample_canonical"
  by code_simp

lemma payer_facet_sample_data:
  "map_sum id (\<lambda>env. payerID_facet (facets env)) (transformHGraphToDragonGlass sample_data) =
   Inr [(''0.0.26027'', 2), (''0.0.5'', 1)]"
  by code_simp

text \<open>
  Claim C5, as stated: \<^verbatim>\<open>networkFees\<close> equals \<^verbatim>\<open>transactionFee\<close> minus \<^verbatim>\<open>nodeFees\<close>,
  for every raw transaction. The code subtracts in double precision. For a fee of
  \<open>2^54\<close> tinybars, of which 1 goes to the node, \<^verbatim>\<open>networkFees\<close> is \<open>2^54\<close>, and the
  difference is \<open>2^54 - 1\<close>.
\<close>

theorem transform_tx_fees_counterexample:
  "raw_tx_ok large_fee_tx \<and>
   field large_fee_tx ''charged_tx_fee'' = JNum (Fin 18014398509481984) \<and>
   map_sum id (\<lambda>r. (transactionFee r, nodeFees r, networkFees r)) (transform_tx large_fee_tx) =
     Inr (JNum (Fin 18014398509481984), JNum (Fin 1), Fin 18014398509481984) \<and>
   Fin 18014398509481984 \<noteq> Fin (18014398509481984 - 1)"
  by code_simp

text \<open>
  Claim C5, amended. For every raw transaction as the data model describes it, the
  callback returns a record in which \<^verbatim>\<open>transactionFee\<close> is the raw \<^verbatim>\<open>charged_tx_fee\<close>,
  \<^verbatim>\<open>nodeID\<close> is \<^verbatim>\<open>0.0.\<close> followed by the raw \<^verbatim>\<open>node_account_id\<close>, \<^verbatim>\<open>transfers\<close> are the
  raw transfers with their account and amount, \<^verbatim>\<open>nodeFees\<close> is the amount of the first
  transfer whose account is the node account and whose amount is strictly positive, 0
  when there is none, and \<^verbatim>\<open>networkFees\<close> is the double nearest to \<^verbatim>\<open>transactionFee\<close>
  minus \<^verbatim>\<open>nodeFees\<close>: the exact difference whenever both are integers and the difference
  is at most \<open>2^53 - 1\<close> in magnitude.
\<close>

theorem transform_tx_fees:
  assumes "raw_tx_ok tx"
  shows "\<exists>r. transform_tx tx = Inr r \<and>
     transactionFee r = field tx ''charged_tx_fee'' \<and>
     nodeID r = ''0.0.'' @ string_of (field tx ''node_account_id'') \<and>
     transfers r =
       map (\<lambda>t. \<lparr>accountID = ''0.0.'' @ string_of (field t ''entity_id''),
                  amount_tr = field t ''amount''\<rparr>)
         (elements (field tx ''crypto_transfer'')) \<and>
     nodeFees r =
       (case find (\<lambda>t. accountID t = nodeID r \<and> js_gt (number_of (amount_tr t)) (Fin 0))
               (transfers r) of
          None \<Rightarrow> JNum (Fin 0)
        | Some t \<Rightarrow> amount_tr t) \<and>
     networkFees r = js_sub (number_of (transactionFee r)) (number_of (nodeFees r)) \<and>
     (\<forall>f g. transactionFee r = JNum (Fin (of_int f)) \<and> nodeFees r = JNum (Fin (of_int g)) \<and>
            \<bar>f - g\<bar> \<le> 9007199254740991 \<longrightarrow>
            networkFees r = Fin (of_int (f - g)))"
proof -
  from transform_tx_ok [OF assms] obtain r where r: "transform_tx tx = Inr r"
    and fee: "transactionFee r = field tx ''charged_tx_fee''"
    and node: "nodeID r = ''0.0.'' @ string_of (field tx ''node_account_id'')"
    and tr: "transfers r =
       map (\<lambda>t. \<lparr>accountID = ''0.0.'' @ string_of (field t ''entity_id''),
                  amount_tr = field t ''amount''\<rparr>)
         (elements (field tx ''crypto_transfer''))"
    and nf: "nodeFees r =
       amount_or_zero
         (find (\<lambda>t. accountID t = ''0.0.'' @ string_of (field tx ''node_account_id'') \<and>
                    js_gt (number_of (amount_tr t)) (Fin 0))
            (transfers r))"
    and net: "networkFees r = js_sub (number_of (transactionFee r)) (number_of (nodeFees r))"
    by blast
  let ?q = "\<lambda>t. accountID t = nodeID r \<and> js_gt (number_of (amount_tr t)) (Fin 0)"
  have nf': "nodeFees r = amount_or_zero (find ?q (transfers r))"
    using nf by (simp only: node)
  have nodeFees: "nodeFees r =
      (case find ?q (transfers r) of None \<Rightarrow> JNum (Fin 0) | Some t \<Rightarrow> amount_tr t)"
  proof (cases "find ?q (transfers r)")
    case None
    with nf' show ?thesis by simp
  next
    case (Some t)
    then have "js_gt (number_of (amount_tr t)) (Fin 0)"
      using find_SomeD by fastforce
    then have "truthy (amount_tr t)"
      by (rule positive_truthy)
    with nf' Some show ?thesis by (simp add: js_or_def)
  qed
  have exact: "networkFees r = Fin (of_int (f - g))"
    if "transactionFee r = JNum (Fin (of_int f)) \<and> nodeFees r = JNum (Fin (of_int g)) \<and>
        \<bar>f - g\<bar> \<le> 9007199254740991" for f g
  proof -
    from that have "networkFees r = round_double (of_int f - of_int g)"
      by (simp add: net number_of_def)
    also have "\<dots> = round_double (of_int (f - g))"
      by simp
    also have "\<dots> = Fin (of_int (f - g))"
      using that by (intro round_double_of_int) simp
    finally show ?thesis .
  qed
  from r fee node tr nodeFees net exact show ?thesis
    by blast
qed

theorem transform_tx_fees_witness:
  "raw_tx_ok sample_tx \<and>
   (\<exists>r. transform_tx sample_tx = Inr r \<and>
      transactionFee r = JNum (Fin 100000) \<and>
      nodeID r = ''0.0.3'' \<and>
      nodeFees r = JNum (Fin 4000) \<and>
      networkFees r = Fin 96000)"
proof -
  from transform_tx_fees [OF raw_tx_ok_sample_tx] obtain r
    where r: "transform_tx sample_tx = Inr r"
      and exact: "\<forall>f g. transactionFee r = JNum (Fin (of_int f)) \<and>
            nodeFees r = JNum (Fin (of_int g)) \<and> \<bar>f - g\<bar> \<le> 9007199254740991 \<longrightarrow>
            networkFees r = Fin (of_int (f - g))"
    by blast
  from r have c: "r = sample_canonical"
    by (simp add: transform_tx_sample)
  have fee: "transactionFee r = JNum (Fin (of_int 100000))"
    and node: "nodeFees r = JNum (Fin (of_int 4000))" and nid: "nodeID r = ''0.0.3''"
    by (simp_all add: c sample_canonical_def)
  from exact [rule_format, of 100000 4000] fee node
  have "networkFees r = Fin (of_int (100000 - 4000))"
    by simp
  with r fee node nid raw_tx_ok_sample_tx show ?thesis
    by simp
qed

section \<open>Properties of the envelope\<close>

lemma sum_update:
  "sum_list (map snd (AList.update k ((case map_of f k of None \<Rightarrow> 0 | Some c \<Rightarrow> c) + 1) f)) =
   sum_list (map snd f) + (1::nat)"
  by (induction f) auto

lemma sum_count_payer: "sum_list (map snd (count_payer f k)) = sum_list (map snd f) + 1"
  unfolding count_payer_def by (rule sum_update)

lemma sum_foldl_count_payer:
  "sum_list (map snd (foldl (\<lambda>f tx. count_payer f (payerID tx)) f0 rs)) =
   sum_list (map snd f0) + length rs"
  by (induction rs arbitrary: f0) (simp_all add: sum_count_payer)

lemma map_const_replicate: "\<forall>x\<in>set xs. f x = c \<Longrightarrow> map f xs = replicate (length xs) c"
  by (induction xs) simp_all

text \<open>
  Claim C10, as stated: every input with a transaction list of length \<open>n\<close> yields an
  envelope whose counts are \<open>n\<close>. This fails for a list with an entry that cannot be
  converted: on an entry without fields the callback throws \<^verbatim>\<open>TypeError\<close>, and no
  envelope is produced for the list of length 1 that holds it.
\<close>

theorem transform_envelope_counts_counterexample:
  "field empty_entry_data ''transaction'' = JArr [JObj []] \<and>
   length [JObj []] = 1 \<and>
   transformHGraphToDragonGlass empty_entry_data = Inl TypeError"
  by code_simp

text \<open>
  Claim C10, amended. For an input whose transaction field is a list of length \<open>n\<close>:
  if every entry is a raw transaction as the data model describes it, an envelope is
  produced; and every envelope that is produced has \<^verbatim>\<open>size\<close>, \<^verbatim>\<open>totalCount\<close> and the
  length of \<^verbatim>\<open>data\<close> equal to \<open>n\<close>, the single transaction-type facet and the single
  service-type facet count \<open>n\<close>, the per-payer counts sum to \<open>n\<close>, and every record
  carries the source tag \<^verbatim>\<open>hgraphio\<close>.
\<close>

theorem transform_envelope_counts:
  assumes "field d ''transaction'' = JArr txs"
  shows "((\<forall>tx\<in>set txs. raw_tx_ok tx) \<longrightarrow> (\<exists>env. transformHGraphToDragonGlass d = Inr env)) \<and>
     (\<forall>env. transformHGraphToDragonGlass d = Inr env \<longrightarrow>
        size_env env = length txs \<and> totalCount env = length txs \<and>
        length (data_env env) = length txs \<and>
        transactionTypes (facets env) = [(''CRYPTO_TRANSFER'', length txs)] \<and>
        serviceTypes (facets env) = [(''CRYPTO'', length txs)] \<and>
        sum_list (map snd (payerID_facet (facets env))) = length txs \<and>
        (\<forall>r\<in>set (data_env env). source r = ''hgraphio''))"
proof -
  have produced: "\<exists>env. transformHGraphToDragonGlass d = Inr env"
    if ok: "\<forall>tx\<in>set txs. raw_tx_ok tx"
  proof -
    have "\<exists>rs. map_throwing transform_tx txs = Inr rs"
    proof (rule map_throwing_all_ok)
      fix tx
      assume "tx \<in> set txs"
      with ok have "raw_tx_ok tx" by blast
      then show "\<exists>r. transform_tx tx = Inr r"
        using transform_tx_ok by blast
    qed
    then obtain rs where "map_throwing transform_tx txs = Inr rs"
      by blast
    then show ?thesis
      by (simp add: transform_list [OF assms])
  qed
  have counts: "size_env env = length txs \<and> totalCount env = length txs \<and>
        length (data_env env) = length txs \<and>
        transactionTypes (facets env) = [(''CRYPTO_TRANSFER'', length txs)] \<and>
        serviceTypes (facets env) = [(''CRYPTO'', length txs)] \<and>
        sum_list (map snd (payerID_facet (facets env))) = length txs \<and>
        (\<forall>r\<in>set (data_env env). source r = ''hgraphio'')"
    if env: "transformHGraphToDragonGlass d = Inr env" for env
  proof (cases "map_throwing transform_tx txs")
    case (Inl e)
    with env show ?thesis
      by (simp add: transform_list [OF assms])
  next
    case (Inr rs)
    with env have e: "env = \<lparr>size_env = length rs, totalCount = length rs, data_env = rs,
        facets = \<lparr>transactionTypes = [(''CRYPTO_TRANSFER'', length rs)],
                  payerID_facet = foldl (\<lambda>f tx. count_payer f (payerID tx)) [] rs,
                  serviceTypes = [(''CRYPTO'', length rs)]\<rparr>,
        mapping = None\<rparr>"
      by (simp add: transform_list [OF assms])
    have len: "length rs = length txs"
      using Inr by (rule map_throwing_length)
    have src: "\<forall>r\<in>set rs. source r = ''hgraphio''"
    proof
      fix r
      assume "r \<in> set rs"
      from map_throwing_set [OF Inr this] obtain tx where "transform_tx tx = Inr r"
        by blast
      then show "source r = ''hgraphio''"
        by (rule transform_tx_source)
    qed
    have total:
      "sum_list (map snd (foldl (\<lambda>f tx. count_payer f (payerID tx)) [] rs)) = length txs"
      by (simp add: sum_foldl_count_payer len)
    show ?thesis
      unfolding e using len src total by simp
  qed
  from produced counts show ?thesis
    by blast
qed

theorem transform_envelope_counts_witness:
  "field sample_data ''transaction'' = JArr [sample_tx, other_tx, sample_tx] \<and>
   map raw_tx_ok [sample_tx, other_tx, sample_tx] = [True, True, True] \<and>
   (\<exists>env. transformHGraphToDragonGlass sample_data = Inr env \<and>
      size_env env = 3 \<and> totalCount env = 3 \<and> length (data_env env) = 3 \<and>
      transactionTypes (facets env) = [(''CRYPTO_TRANSFER'', 3)] \<and>
      serviceTypes (facets env) = [(''CRYPTO'', 3)] \<and>
      payerID_facet (facets env) = [(''0.0.26027'', 2), (''0.0.5'', 1)] \<and>
      sum_list (map snd (payerID_facet (facets env))) = 3 \<and>
      map source (data_env env) = [''hgraphio'', ''hgraphio'', ''hgraphio''])"
proof -
  have ok: "\<forall>tx\<in>set [sample_tx, other_tx, sample_tx]. raw_tx_ok tx"
    by (simp add: raw_tx_ok_sample_tx raw_tx_ok_other_tx)
  from transform_envelope_counts [OF field_sample_data] ok obtain env
    where env: "transformHGraphToDragonGlass sample_data = Inr env"
      and counts: "size_env env = 3" "totalCount env = 3" "length (data_env env) = 3"
        "transactionTypes (facets env) = [(''CRYPTO_TRANSFER'', 3)]"
        "serviceTypes (facets env) = [(''CRYPTO'', 3)]"
        "sum_list (map snd (payerID_facet (facets env))) = 3"
      and src: "\<forall>r\<in>set (data_env env). source r = ''hgraphio''"
    by fastforce
  from map_const_replicate [OF src] counts(3)
  have m: "map source (data_env env) = [''hgraphio'', ''hgraphio'', ''hgraphio'']"
    by (simp add: numeral_3_eq_3)
  from payer_facet_sample_data env
  have p: "payerID_facet (facets env) = [(''0.0.26027'', 2), (''0.0.5'', 1)]"
    by simp
  from env counts m p show ?thesis
    by (simp add: field_sample_data raw_tx_ok_sample_tx raw_tx_ok_other_tx)
qed

text \<open>
  Claim C8, as stated: every input with a transaction list yields the full envelope.
  This fails when a timestamp in the list does not convert to a date: the conversion
  throws \<^verbatim>\<open>RangeError\<close>, and so does the transformation.
\<close>

theorem transformHGraphToDragonGlass_throws_counterexample:
  "field late_data ''transaction'' = JArr [late_tx] \<and>
   transformHGraphToDragonGlass late_data = Inl RangeError"
  by code_simp

text \<open>
  Claim C8, amended. On a null or absent input the transformation throws \<^verbatim>\<open>TypeError\<close>.
  Any other input whose transaction field is absent, otherwise falsy, or not a list
  yields the zero-value envelope. An input with a transaction list all of whose entries
  are raw transactions as the data model describes it, with timestamps that convert to
  dates, yields the full envelope, with null mapping, whose size and total count are the
  length of the list and whose data are the transformed transactions. An input with a
  transaction list in which some entry is null or absent, has a timestamp that does not
  convert, or has no string hash yields no envelope: the call throws.
\<close>

theorem transformHGraphToDragonGlass_envelope:
  "(is_nullish d \<longrightarrow> transformHGraphToDragonGlass d = Inl TypeError) \<and>
   (\<not> is_nullish d \<and>
    (\<not> truthy (field d ''transaction'') \<or> \<not> isArray (field d ''transaction'')) \<longrightarrow>
      transformHGraphToDragonGlass d =
        Inr \<lparr>size_env = 0, totalCount = 0, data_env = [],
             facets = \<lparr>transactionTypes = [], payerID_facet = [], serviceTypes = []\<rparr>,
             mapping = None\<rparr>) \<and>
   (\<forall>txs. field d ''transaction'' = JArr txs \<and> (\<forall>tx\<in>set txs. raw_tx_ok tx) \<longrightarrow>
      (\<exists>env. transformHGraphToDragonGlass d = Inr env \<and> mapping env = None \<and>
         size_env env = length txs \<and> totalCount env = length txs \<and>
         map_throwing transform_tx txs = Inr (data_env env))) \<and>
   (\<forall>txs. field d ''transaction'' = JArr txs \<and> (\<exists>tx\<in>set txs. unconvertible tx) \<longrightarrow>
      (\<exists>e. transformHGraphToDragonGlass d = Inl e))"
proof (intro conjI allI impI)
  assume "is_nullish d"
  then show "transformHGraphToDragonGlass d = Inl TypeError"
    by (simp add: transformHGraphToDragonGlass_def get_prop_def)
next
  assume "\<not> is_nullish d \<and>
    (\<not> truthy (field d ''transaction'') \<or> \<not> isArray (field d ''transaction''))"
  then have "get_prop d ''transaction'' = Inr (field d ''transaction'')"
    and "\<not> truthy (field d ''transaction'') \<or> \<not> isArray (field d ''transaction'')"
    by (simp_all add: get_prop_def)
  then have "transformHGraphToDragonGlass d = Inr zero_envelope"
    by (simp add: transformHGraphToDragonGlass_def)
  then show "transformHGraphToDragonGlass d =
        Inr \<lparr>size_env = 0, totalCount = 0, data_env = [],
             facets = \<lparr>transactionTypes = [], payerID_facet = [], serviceTypes = []\<rparr>,
             mapping = None\<rparr>"
    by (simp add: zero_envelope_def)
next
  fix txs
  assume a: "field d ''transaction'' = JArr txs \<and> (\<forall>tx\<in>set txs. raw_tx_ok tx)"
  have "\<exists>rs. map_throwing transform_tx txs = Inr rs"
  proof (rule map_throwing_all_ok)
    fix tx
    assume "tx \<in> set txs"
    with a have "raw_tx_ok tx" by blast
    then show "\<exists>r. transform_tx tx = Inr r"
      using transform_tx_ok by blast
  qed
  then obtain rs where rs: "map_throwing transform_tx txs = Inr rs"
    by blast
  from a have t: "field d ''transaction'' = JArr txs" by simp
  show "\<exists>env. transformHGraphToDragonGlass d = Inr env \<and> mapping env = None \<and>
         size_env env = length txs \<and> totalCount env = length txs \<and>
         map_throwing transform_tx txs = Inr (data_env env)"
    using rs map_throwing_length [OF rs] by (simp add: transform_list [OF t])
next
  fix txs
  assume a: "field d ''transaction'' = JArr txs \<and> (\<exists>tx\<in>set txs. unconvertible tx)"
  then obtain tx where tx: "tx \<in> set txs" "unconvertible tx"
    by blast
  then obtain e where e: "transform_tx tx = Inl e"
    using transform_tx_unconvertible by blast
  from map_throwing_some_error [of tx txs transform_tx e, OF tx(1) e]
  obtain e' where "map_throwing transform_tx txs = Inl e'"
    by blast
  moreover from a have t: "field d ''transaction'' = JArr txs" by simp
  ultimately show "\<exists>e. transformHGraphToDragonGlass d = Inl e"
    by (simp add: transform_list [OF t])
qed

theorem transformHGraphToDragonGlass_envelope_witness:
  "transformHGraphToDragonGlass JUndefined = Inl TypeError \<and>
   transformHGraphToDragonGlass (JObj [(''transaction'', JStr ''none'')]) =
     Inr \<lparr>size_env = 0, totalCount = 0, data_env = [],
          facets = \<lparr>transactionTypes = [], payerID_facet = [], serviceTypes = []\<rparr>,
          mapping = None\<rparr> \<and>
   transformHGraphToDragonGlass (JObj []) =
     Inr \<lparr>size_env = 0, totalCount = 0, data_env = [],
          facets = \<lparr>transactionTypes = [], payerID_facet = [], serviceTypes = []\<rparr>,
          mapping = None\<rparr> \<and>
   (\<exists>env. transformHGraphToDragonGlass sample_data = Inr env \<and> mapping env = None \<and>
      size_env env = 3 \<and> totalCount env = 3 \<and>
      map_throwing transform_tx [sample_tx, other_tx, sample_tx] = Inr (data_env env)) \<and>
   (\<exists>e. transformHGraphToDragonGlass late_data = Inl e)"
proof -
  have a: "transformHGraphToDragonGlass JUndefined = Inl TypeError"
    using transformHGraphToDragonGlass_envelope [of JUndefined]
    by (simp add: is_nullish_def)
  have b: "transformHGraphToDragonGlass (JObj [(''transaction'', JStr ''none'')]) =
     Inr \<lparr>size_env = 0, totalCount = 0, data_env = [],
          facets = \<lparr>transactionTypes = [], payerID_facet = [], serviceTypes = []\<rparr>,
          mapping = None\<rparr>"
    using transformHGraphToDragonGlass_envelope [of "JObj [(''transaction'', JStr ''none'')]"]
    by (simp add: is_nullish_def)
  have c: "transformHGraphToDragonGlass (JObj []) =
     Inr \<lparr>size_env = 0, totalCount = 0, data_env = [],
          facets = \<lparr>transactionTypes = [], payerID_facet = [], serviceTypes = []\<rparr>,
          mapping = None\<rparr>"
    using transformHGraphToDragonGlass_envelope [of "JObj []"]
    by (simp add: is_nullish_def)
  have ok: "\<forall>tx\<in>set [sample_tx, other_tx, sample_tx]. raw_tx_ok tx"
    by (simp add: raw_tx_ok_sample_tx raw_tx_ok_other_tx)
  have d: "\<exists>env. transformHGraphToDragonGlass sample_data = Inr env \<and> mapping env = None \<and>
      size_env env = 3 \<and> totalCount env = 3 \<and>
      map_throwing transform_tx [sample_tx, other_tx, sample_tx] = Inr (data_env env)"
    using transformHGraphToDragonGlass_envelope [of sample_data] field_sample_data ok
    by fastforce
  have bad: "\<exists>tx\<in>set [late_tx]. unconvertible tx"
    by (simp add: unconvertible_late_tx)
  have e: "\<exists>e. transformHGraphToDragonGlass late_data = Inl e"
    using transformHGraphToDragonGlass_envelope [of late_data] field_late_data bad
    by blast
  from a b c d e show ?thesis
    by blast
qed

end
